theory Spec2Isabelle
  imports Main
begin

section \<open>Python values shared by both programs\<close>

text \<open>
  Exceptions are values. Every exception of the two programs derives from Python's
  \<open>Exception\<close>, so one datatype covers what \<open>except Exception\<close> catches; the constructor
  records the class and the argument carries what \<open>str(e)\<close> prints.
\<close>

datatype exc =
    KeyError string
  | IndexError string
  | AttributeError string
  | TypeError string
  | ValueError string
  | JSONDecodeError string
  | LibraryError string

fun str_exc :: "exc \<Rightarrow> string" where
  "str_exc (KeyError k) = [CHR 0x27] @ k @ [CHR 0x27]"
| "str_exc (IndexError m) = m"
| "str_exc (AttributeError m) = m"
| "str_exc (TypeError m) = m"
| "str_exc (ValueError m) = m"
| "str_exc (JSONDecodeError m) = m"
| "str_exc (LibraryError m) = m"

text \<open>\<open>str(n)\<close> for a Python int: decimal digits, a minus sign when negative.\<close>

definition digit_char :: "nat \<Rightarrow> char" where
  "digit_char d =
     (if d = 0 then CHR ''0'' else if d = 1 then CHR ''1'' else if d = 2 then CHR ''2''
      else if d = 3 then CHR ''3'' else if d = 4 then CHR ''4'' else if d = 5 then CHR ''5''
      else if d = 6 then CHR ''6'' else if d = 7 then CHR ''7'' else if d = 8 then CHR ''8''
      else CHR ''9'')"

fun str_nat :: "nat \<Rightarrow> string" where
  "str_nat n = (if n < 10 then [digit_char n] else str_nat (n div 10) @ [digit_char (n mod 10)])"

definition str_int :: "int \<Rightarrow> string" where
  "str_int i = (if i < 0 then CHR ''-'' # str_nat (nat (- i)) else str_nat (nat i))"

section \<open>JSON documents\<close>

text \<open>
  What \<open>json.load\<close> returns. Numbers are Python ints; floats and booleans do not occur in
  the documents of this repository and are left out. A JSON object is a Python dict: an
  association list in insertion order.
\<close>

datatype json =
    JNull
  | JInt int
  | JStr string
  | JArr "json list"
  | JObj "(string \<times> json) list"

text \<open>\<open>d.get(key, default)\<close>; only a dict has the method.\<close>

definition dict_get :: "json \<Rightarrow> string \<Rightarrow> json \<Rightarrow> exc + json" where
  "dict_get d key dflt =
     (case d of
        JObj kvs \<Rightarrow> Inr (case map_of kvs key of None \<Rightarrow> dflt | Some v \<Rightarrow> v)
      | _ \<Rightarrow> Inl (AttributeError ''object has no attribute get''))"

text \<open>\<open>d.items()\<close>.\<close>

definition dict_items :: "json \<Rightarrow> exc + (string \<times> json) list" where
  "dict_items d =
     (case d of
        JObj kvs \<Rightarrow> Inr kvs
      | _ \<Rightarrow> Inl (AttributeError ''object has no attribute items''))"

text \<open>Truth value of an object, as \<open>if timestamp:\<close> tests it.\<close>

fun truthy :: "json \<Rightarrow> bool" where
  "truthy JNull = False"
| "truthy (JInt i) = (i \<noteq> 0)"
| "truthy (JStr s) = (s \<noteq> [])"
| "truthy (JArr xs) = (xs \<noteq> [])"
| "truthy (JObj kvs) = (kvs \<noteq> [])"

section \<open>show_status.py: the relative-time formatter\<close>

text \<open>
  A naive \<open>datetime\<close> is a point on the local time line, counted in microseconds; an
  offset-aware one cannot be subtracted from \<open>datetime.now()\<close>, which is naive. The
  datetime library itself is a collaborator: its parser and its two renderings are taken
  as parameters.
\<close>

datatype datetime = Naive int | Aware int

record dtlib =
  fromisoformat :: "string \<Rightarrow> exc + datetime"
  isoformat :: "int \<Rightarrow> string"
  strftime :: "datetime \<Rightarrow> string"

text \<open>
  \<open>timedelta\<close> is normalised: \<open>0 \<le> seconds < 86400\<close> and
  \<open>0 \<le> microseconds < 1000000\<close>, with the sign carried by \<open>days\<close> alone.
\<close>

record timedelta =
  days :: int
  seconds :: int
  microseconds :: int

definition timedelta_of :: "int \<Rightarrow> timedelta" where
  "timedelta_of us =
     \<lparr> days = us div 86400000000,
       seconds = (us mod 86400000000) div 1000000,
       microseconds = us mod 1000000 \<rparr>"

definition datetime_sub :: "int \<Rightarrow> datetime \<Rightarrow> exc + timedelta" where
  "datetime_sub now t =
     (case t of
        Naive us \<Rightarrow> Inr (timedelta_of (now - us))
      | Aware _ \<Rightarrow> Inl (TypeError ''can't subtract offset-naive and offset-aware datetimes''))"

definition time_ago :: "timedelta \<Rightarrow> string" where
  "time_ago diff =
     (if days diff > 0 then str_int (days diff) @ '' days ago''
      else if seconds diff \<ge> 3600 then
        (let hours = seconds diff div 3600
         in str_int hours @ '' hour'' @ (if hours > 1 then ''s'' else '''') @ '' ago'')
      else if seconds diff \<ge> 60 then
        (let minutes = seconds diff div 60
         in str_int minutes @ '' minute'' @ (if minutes > 1 then ''s'' else '''') @ '' ago'')
      else str_int (seconds diff) @ '' second''
             @ (if seconds diff \<noteq> 1 then ''s'' else '''') @ '' ago'')"

text \<open>\<open>datetime.fromisoformat(timestamp)\<close> on a loaded value: the parser wants a str.\<close>

definition parse_timestamp :: "dtlib \<Rightarrow> json \<Rightarrow> exc + datetime" where
  "parse_timestamp lib timestamp =
     (case timestamp of
        JStr s \<Rightarrow> fromisoformat lib s
      | _ \<Rightarrow> Inl (TypeError ''fromisoformat: argument must be str''))"

definition format_time_ago :: "dtlib \<Rightarrow> int \<Rightarrow> json \<Rightarrow> exc + string" where
  "format_time_ago lib now timestamp_str =
     (case parse_timestamp lib timestamp_str of
        Inl e \<Rightarrow> Inl e
      | Inr timestamp \<Rightarrow>
          (case datetime_sub now timestamp of
             Inl e \<Rightarrow> Inl e
           | Inr diff \<Rightarrow> Inr (time_ago diff)))"

section \<open>The Result Store\<close>

text \<open>
  A path is written with \<open>~\<close> for \<open>Path.home()\<close>. A file of the store is identified with
  what \<open>json.load\<close> makes of its text: a document, or a decoding error.
\<close>

type_synonym path = string
type_synonym fs = "path \<rightharpoonup> exc + json"

definition show_status_CONFIG_DIR :: path where
  "show_status_CONFIG_DIR = ''~/.config/email_counter''"

definition show_status_RESULTS_PATH :: path where
  "show_status_RESULTS_PATH = show_status_CONFIG_DIR @ ''/last_results.json''"

definition legacy_results_path :: path where
  "legacy_results_path = ''~/.email_counter/last_results.json''"

section \<open>show_status.py: the Status Reporter\<close>

text \<open>
  A printed line is text, or the \<open>json.dumps\<close> rendering of a document, kept as the
  document itself.
\<close>

datatype line = Text string | Dumps json

record status_args =
  json_flag :: bool
  legacy_path :: bool

text \<open>
  The loop over \<open>counts.items()\<close>. The comparison \<open>count >= 0\<close> is defined on numbers
  only; lines already printed stay printed when a later comparison raises.
\<close>

fun print_counts :: "(string \<times> json) list \<Rightarrow> line list \<times> exc option" where
  "print_counts [] = ([], None)"
| "print_counts ((name, count) # rest) =
     (case count of
        JInt i \<Rightarrow>
          (let l = (if i \<ge> 0 then Text (name @ '': '' @ str_int i @ '' unread'')
                    else Text (name @ '': Error checking inbox''));
               (ls, r) = print_counts rest
           in (l # ls, r))
      | _ \<Rightarrow> ([], Some (TypeError ''>= not supported between these instances'')))"

text \<open>Lines 73 to 78: the two lines about the time of the last check.\<close>

definition print_timestamp :: "dtlib \<Rightarrow> int \<Rightarrow> json \<Rightarrow> line list \<times> exc option" where
  "print_timestamp lib now timestamp =
     (if truthy timestamp then
        (case format_time_ago lib now timestamp of
           Inl e \<Rightarrow> ([], Some e)
         | Inr ago \<Rightarrow>
             (case parse_timestamp lib timestamp of
                Inl e \<Rightarrow> ([Text (''Last checked: '' @ ago)], Some e)
              | Inr t \<Rightarrow>
                  ([Text (''Last checked: '' @ ago),
                    Text (''Exact time: '' @ strftime lib t)], None)))
      else ([], None))"

text \<open>Lines 57 to 78 of \<open>main\<close>: the body of the \<open>try\<close>.\<close>

definition status_body :: "dtlib \<Rightarrow> int \<Rightarrow> status_args \<Rightarrow> exc + json \<Rightarrow> line list \<times> exc option" where
  "status_body lib now args file =
     (case file of
        Inl e \<Rightarrow> ([], Some e)
      | Inr data \<Rightarrow>
          (case dict_get data ''timestamp'' JNull of
             Inl e \<Rightarrow> ([], Some e)
           | Inr timestamp \<Rightarrow>
               (case dict_get data ''counts'' (JObj []) of
                  Inl e \<Rightarrow> ([], Some e)
                | Inr counts \<Rightarrow>
                    (if json_flag args then ([Dumps data], None)
                     else
                       (case dict_items counts of
                          Inl e \<Rightarrow> ([Text ''--- Email Inbox Status ---''], Some e)
                        | Inr items \<Rightarrow>
                            (case print_counts items of
                               (ls, Some e) \<Rightarrow> (Text ''--- Email Inbox Status ---'' # ls, Some e)
                             | (ls, None) \<Rightarrow>
                                 (case print_timestamp lib now timestamp of
                                    (ts, r) \<Rightarrow> (Text ''--- Email Inbox Status ---'' # ls @ ts, r))))))))"

text \<open>Lines 40 to 49: which file is read, and the notice printed for the legacy one.\<close>

definition locate_results :: "fs \<Rightarrow> status_args \<Rightarrow> path \<times> line list" where
  "locate_results files args =
     (if files show_status_RESULTS_PATH = None \<and> legacy_path args then
        (if files legacy_results_path \<noteq> None
         then (legacy_results_path,
               [Text ''Using legacy configuration path. Consider migrating to the new location.''])
         else (show_status_RESULTS_PATH, []))
      else (show_status_RESULTS_PATH, []))"

record status_run =
  exit_code :: int
  printed :: "line list"
  files_after :: fs

definition show_status_main :: "dtlib \<Rightarrow> int \<Rightarrow> status_args \<Rightarrow> fs \<Rightarrow> status_run" where
  "show_status_main lib now args files =
     (case locate_results files args of
        (results_path, notice) \<Rightarrow>
          (case files results_path of
             None \<Rightarrow>
               \<lparr> exit_code = 1,
                 printed = notice @
                   [Text ''No email status data found. Run email_counter first.'',
                    Text (''Expected path: '' @ show_status_RESULTS_PATH)],
                 files_after = files \<rparr>
           | Some file \<Rightarrow>
               (case status_body lib now args file of
                  (ls, Some e) \<Rightarrow>
                    \<lparr> exit_code = 1,
                      printed = notice @ ls @ [Text (''Error reading email status: '' @ str_exc e)],
                      files_after = files \<rparr>
                | (ls, None) \<Rightarrow>
                    \<lparr> exit_code = 0, printed = notice @ ls, files_after = files \<rparr>)))"

section \<open>email_check.py: effects\<close>

text \<open>
  An f-string is kept as its pieces: literal text, and values rendered by \<open>str\<close>.
\<close>

datatype piece = Lit string | Fmt json

text \<open>
  What a run does to the outside world, in order: log records, printed lines and the calls
  into the OAuth, Gmail, keyring and IMAP libraries and the file system.
\<close>

datatype event =
    Log string "piece list"
  | Print "piece list"
  | PrintDumps string "(json \<times> int) list"
  | MkDirs
  | WriteTemplate
  | Chmod path
  | PickleLoad json
  | CredsRefresh
  | SecretsLoad
  | RunLocalServer
  | PickleDump json
  | BuildService
  | ListUnread
  | ImapConnect json json
  | KeyringGet json
  | Getpass
  | KeyringSet json
  | ImapLogin json
  | ImapSelect
  | ImapSearch
  | ImapLogout
  | Input
  | WriteResults

text \<open>
  A computation yields the events it caused and either the exception it raised or its
  value.
\<close>

type_synonym 'a io = "event list \<times> (exc + 'a)"

definition returns :: "'a \<Rightarrow> 'a io" where
  "returns x = ([], Inr x)"

definition raises :: "exc \<Rightarrow> 'a io" where
  "raises e = ([], Inl e)"

definition emit :: "event \<Rightarrow> unit io" where
  "emit ev = ([ev], Inr ())"

text \<open>A call into a library: the call happens, then it raises or returns.\<close>

definition call :: "event \<Rightarrow> exc + 'a \<Rightarrow> 'a io" where
  "call ev outcome = ([ev], outcome)"

definition lift :: "exc + 'a \<Rightarrow> 'a io" where
  "lift r = ([], r)"

text \<open>Sequencing: an exception skips what follows.\<close>

definition then_do :: "'a io \<Rightarrow> ('a \<Rightarrow> 'b io) \<Rightarrow> 'b io" where
  "then_do m f =
     (case m of
        (evs, Inl e) \<Rightarrow> (evs, Inl e)
      | (evs, Inr x) \<Rightarrow> (case f x of (evs', r) \<Rightarrow> (evs @ evs', r)))"

text \<open>\<open>try: m except Exception as e: h e\<close>.\<close>

definition catch :: "'a io \<Rightarrow> (exc \<Rightarrow> 'a io) \<Rightarrow> 'a io" where
  "catch m h =
     (case m of
        (evs, Inl e) \<Rightarrow> (case h e of (evs', r) \<Rightarrow> (evs @ evs', r))
      | (evs, Inr x) \<Rightarrow> (evs, Inr x))"

text \<open>An account descriptor is a dict loaded from the config; \<open>account[key]\<close>.\<close>

type_synonym account = "string \<rightharpoonup> json"

definition subscript :: "account \<Rightarrow> string \<Rightarrow> json io" where
  "subscript acct key = (case acct key of None \<Rightarrow> raises (KeyError key) | Some v \<Rightarrow> returns v)"

text \<open>\<open>len(x)\<close>.\<close>

definition py_len :: "json \<Rightarrow> exc + nat" where
  "py_len x =
     (case x of
        JStr s \<Rightarrow> Inr (length s)
      | JArr xs \<Rightarrow> Inr (length xs)
      | JObj kvs \<Rightarrow> Inr (length kvs)
      | _ \<Rightarrow> Inl (TypeError ''object has no len()''))"

section \<open>email_check.py: GmailHandler\<close>

record creds =
  valid :: bool
  expired :: bool
  refresh_token :: bool

text \<open>
  What the outside world answers during one check of a Gmail account: whether the token
  and client-secret files exist, and the outcome of each library call.
\<close>

record gmail_session =
  token_exists :: bool
  pickle_load :: "exc + creds"
  creds_refresh :: "exc + unit"
  secret_exists :: bool
  secrets_load :: "exc + unit"
  run_local_server :: "exc + unit"
  pickle_dump :: "exc + unit"
  build_service :: "exc + unit"
  list_unread :: "exc + json"

text \<open>\<open>service\<close> tells whether the handler holds a session handle.\<close>

record GmailHandler =
  account_name :: json
  email :: json
  service :: bool

definition authenticate :: "GmailHandler \<Rightarrow> gmail_session \<Rightarrow> (bool \<times> GmailHandler) io" where
  "authenticate h s =
     then_do (if token_exists s
              then then_do (call (PickleLoad (email h)) (pickle_load s)) (\<lambda>c. returns (Some c))
              else returns None)
     (\<lambda>loaded.
        let build = then_do (call BuildService (build_service s))
                      (\<lambda>_. returns (True, h\<lparr>service := True\<rparr>));
            save_and_build = then_do (call (PickleDump (email h)) (pickle_dump s)) (\<lambda>_. build);
            refresh_possible = (case loaded of None \<Rightarrow> False
                                | Some c \<Rightarrow> expired c \<and> refresh_token c)
        in if (case loaded of None \<Rightarrow> True | Some c \<Rightarrow> \<not> valid c) then
             (if refresh_possible then
                then_do (call CredsRefresh (creds_refresh s)) (\<lambda>_. save_and_build)
              else if \<not> secret_exists s then
                then_do (emit (Log ''ERROR''
                           [Lit ''Missing credentials.json. Download from Google Cloud Console'']))
                (\<lambda>_. then_do (emit (Print
                           [Lit ''Please download credentials.json from Google Cloud Console and place in ~/.config/email_check/'']))
                (\<lambda>_. returns (False, h)))
              else
                then_do (call SecretsLoad (secrets_load s))
                (\<lambda>_. then_do (call RunLocalServer (run_local_server s))
                (\<lambda>_. save_and_build)))
           else build)"

definition gmail_get_unread_count :: "GmailHandler \<Rightarrow> gmail_session \<Rightarrow> (int \<times> GmailHandler) io" where
  "gmail_get_unread_count h s =
     then_do (if \<not> service h then authenticate h s else returns (True, h))
     (\<lambda>(ok, h').
        if \<not> ok then returns (- 1, h')
        else
          catch
            (then_do (call ListUnread (list_unread s))
             (\<lambda>results. then_do (lift (dict_get results ''messages'' (JArr [])))
             (\<lambda>messages. then_do (lift (py_len messages))
             (\<lambda>n. returns (int n, h')))))
            (\<lambda>e. then_do (emit (Log ''ERROR''
                     [Lit ''Error getting unread count for '', Fmt (account_name h'),
                      Lit '': '', Lit (str_exc e)]))
                  (\<lambda>_. returns (- 1, h'))))"

section \<open>email_check.py: ImapHandler\<close>

text \<open>\<open>bytes.split()\<close>: maximal runs of non-whitespace bytes.\<close>

definition is_space :: "char \<Rightarrow> bool" where
  "is_space c = (c \<in> {CHR 0x20, CHR 0x09, CHR 0x0A, CHR 0x0B, CHR 0x0C, CHR 0x0D})"

fun split_from :: "string \<Rightarrow> string \<Rightarrow> string list" where
  "split_from cur [] = (if cur = [] then [] else [cur])"
| "split_from cur (c # cs) =
     (if is_space c then (if cur = [] then split_from [] cs else cur # split_from [] cs)
      else split_from (cur @ [c]) cs)"

definition bytes_split :: "string \<Rightarrow> string list" where
  "bytes_split s = split_from [] s"

text \<open>
  What the outside world answers during one check of an IMAP account. The search yields a
  status and a list whose items are byte strings or \<open>None\<close>.
\<close>

record imap_session =
  connect :: "exc + unit"
  keyring_get :: "exc + string option"
  getpass_input :: "exc + string"
  keyring_set :: "exc + unit"
  login :: "exc + unit"
  select_inbox :: "exc + unit"
  search_unseen :: "exc + string \<times> string option list"
  logout :: "exc + unit"

record ImapHandler =
  account :: account

definition get_password :: "ImapHandler \<Rightarrow> imap_session \<Rightarrow> string io" where
  "get_password h s =
     then_do (subscript (account h) ''email'')
     (\<lambda>email. then_do (call (KeyringGet email) (keyring_get s))
     (\<lambda>password.
        case password of
          Some p \<Rightarrow> returns p
        | None \<Rightarrow>
            then_do (subscript (account h) ''name'')
            (\<lambda>name. then_do (emit (Print
                       [Lit ''Enter password for '', Fmt name, Lit '' ('', Fmt email, Lit ''):'']))
            (\<lambda>_. then_do (call Getpass (getpass_input s))
            (\<lambda>p. then_do (call (KeyringSet email) (keyring_set s))
            (\<lambda>_. returns p))))))"

text \<open>\<open>response[0].split()\<close>.\<close>

definition first_tokens :: "string option list \<Rightarrow> exc + string list" where
  "first_tokens response =
     (case response of
        [] \<Rightarrow> Inl (IndexError ''list index out of range'')
      | None # _ \<Rightarrow> Inl (AttributeError ''NoneType object has no attribute split'')
      | Some b # _ \<Rightarrow> Inr (bytes_split b))"

definition imap_get_unread_count :: "ImapHandler \<Rightarrow> imap_session \<Rightarrow> int io" where
  "imap_get_unread_count h s =
     then_do (subscript (account h) ''name'')
     (\<lambda>name.
        catch
          (then_do (subscript (account h) ''imap_server'')
           (\<lambda>server. then_do (subscript (account h) ''imap_port'')
           (\<lambda>port. then_do (call (ImapConnect server port) (connect s))
           (\<lambda>_. then_do (get_password h s)
           (\<lambda>password. then_do (subscript (account h) ''email'')
           (\<lambda>email. then_do (call (ImapLogin email) (login s))
           (\<lambda>_. then_do (call ImapSelect (select_inbox s))
           (\<lambda>_. then_do (call ImapSearch (search_unseen s))
           (\<lambda>(status, response).
              if status \<noteq> ''OK'' then
                then_do (emit (Log ''ERROR''
                           [Lit ''Failed to search for UNSEEN messages in '', Fmt name]))
                (\<lambda>_. returns (- 1))
              else
                then_do (lift (first_tokens response))
                (\<lambda>tokens.
                   let unread_count = int (length tokens)
                   in then_do (call ImapLogout (logout s))
                      (\<lambda>_. then_do (emit (Log ''INFO''
                                 [Fmt name, Lit '': '', Lit (str_int unread_count),
                                  Lit '' unread messages'']))
                      (\<lambda>_. returns unread_count))))))))))))
          (\<lambda>e. then_do (emit (Log ''ERROR''
                   [Lit ''Error checking '', Fmt name, Lit '': '', Lit (str_exc e)]))
                (\<lambda>_. returns (- 1))))"

section \<open>email_check.py: EmailCounter\<close>

definition email_check_CONFIG_DIR :: path where
  "email_check_CONFIG_DIR = ''~/.config/email_check''"

definition CONFIG_PATH :: path where
  "CONFIG_PATH = email_check_CONFIG_DIR @ ''/config.json''"

definition email_check_RESULTS_PATH :: path where
  "email_check_RESULTS_PATH = email_check_CONFIG_DIR @ ''/last_results.json''"

datatype handler = Gmail GmailHandler | Imap ImapHandler

text \<open>
  A Python dict keeps its keys in insertion order; storing under a key that is present
  replaces the value where it stands.
\<close>

fun dict_set :: "('k \<times> 'v) list \<Rightarrow> 'k \<Rightarrow> 'v \<Rightarrow> ('k \<times> 'v) list" where
  "dict_set [] k v = [(k, v)]"
| "dict_set ((k', v') # kvs) k v =
     (if k' = k then (k', v) # kvs else (k', v') # dict_set kvs k v)"

text \<open>A dict key must be hashable: lists and dicts are not.\<close>

definition hashable :: "json \<Rightarrow> exc + json" where
  "hashable k =
     (case k of
        JArr _ \<Rightarrow> Inl (TypeError ''unhashable type: list'')
      | JObj _ \<Rightarrow> Inl (TypeError ''unhashable type: dict'')
      | _ \<Rightarrow> Inr k)"

type_synonym handlers = "(json \<times> handler) list"

text \<open>
  One round of the loop of \<open>_setup_handlers\<close>: the handler is built first, then the
  name is looked up and the handler stored under it.
\<close>

definition make_handler :: "account \<Rightarrow> handler io" where
  "make_handler acct =
     then_do (subscript acct ''type'')
     (\<lambda>type.
        if type = JStr ''gmail'' then
          then_do (subscript acct ''name'')
          (\<lambda>name. then_do (subscript acct ''email'')
          (\<lambda>email. returns (Gmail \<lparr> account_name = name, email = email, service = False \<rparr>)))
        else returns (Imap \<lparr> account = acct \<rparr>))"

definition setup_handler :: "handlers \<Rightarrow> account \<Rightarrow> handlers io" where
  "setup_handler hs acct =
     then_do (make_handler acct)
     (\<lambda>h. then_do (subscript acct ''name'')
     (\<lambda>name. then_do (lift (hashable name))
     (\<lambda>key. returns (dict_set hs key h))))"

fun setup_handlers :: "handlers \<Rightarrow> account list \<Rightarrow> handlers io" where
  "setup_handlers hs [] = returns hs"
| "setup_handlers hs (acct # rest) =
     (case setup_handler hs acct of
        (evs, Inl e) \<Rightarrow> (evs, Inl e)
      | (evs, Inr hs') \<Rightarrow> (case setup_handlers hs' rest of (evs', r) \<Rightarrow> (evs @ evs', r)))"

text \<open>
  The descriptors \<open>_setup_handlers\<close> gets through without an exception: those with a type,
  a hashable name and, when the type is \<open>gmail\<close>, an email.
\<close>

definition describable :: "account \<Rightarrow> bool" where
  "describable acct =
     (case acct ''type'' of
        None \<Rightarrow> False
      | Some t \<Rightarrow>
          (case acct ''name'' of
             None \<Rightarrow> False
           | Some n \<Rightarrow> hashable n = Inr n \<and> (if t = JStr ''gmail'' then acct ''email'' \<noteq> None else True)))"

definition default_config :: "account list" where
  "default_config =
     [ [''name'' \<mapsto> JStr ''Gmail 1'', ''email'' \<mapsto> JStr ''your.email@gmail.com'',
        ''type'' \<mapsto> JStr ''gmail''],
       [''name'' \<mapsto> JStr ''Gmail 2'', ''email'' \<mapsto> JStr ''your.second.email@gmail.com'',
        ''type'' \<mapsto> JStr ''gmail''],
       [''name'' \<mapsto> JStr ''iCloud'', ''email'' \<mapsto> JStr ''your.email@icloud.com'',
        ''type'' \<mapsto> JStr ''icloud'', ''imap_server'' \<mapsto> JStr ''imap.mail.me.com'',
        ''imap_port'' \<mapsto> JInt 993] ]"

text \<open>What the outside world answers at one prompt of the password utility.\<close>

record configure_session =
  choice :: "exc + string"
  new_password :: "exc + string"
  store_password :: "exc + unit"

text \<open>
  The world a run of the checker meets. The config file is absent, or \<open>json.load\<close> raises
  on it, or it holds a list of dicts. The handler that is the \<open>i\<close>-th to be
  checked meets session \<open>i\<close> of the script of its kind, so successive checks may meet any
  answers at all.
\<close>

record world =
  mkdirs :: "exc + unit"
  config_file :: "(exc + account list) option"
  config_write :: "exc + unit"
  gmail_script :: "nat \<Rightarrow> gmail_session"
  imap_script :: "nat \<Rightarrow> imap_session"
  configure_script :: "nat \<Rightarrow> configure_session"
  results_write :: "exc + unit"
  save_now :: int
  print_now :: int
  store :: fs

definition ensure_config_dir :: "world \<Rightarrow> unit io" where
  "ensure_config_dir w = call MkDirs (mkdirs w)"

definition load_config :: "world \<Rightarrow> account list io" where
  "load_config w =
     (case config_file w of
        None \<Rightarrow>
          then_do (emit (Log ''INFO''
                     [Lit ''Config file not found, creating template at '', Lit CONFIG_PATH]))
          (\<lambda>_. then_do (call WriteTemplate (config_write w))
          (\<lambda>_. then_do (emit (Chmod CONFIG_PATH))
          (\<lambda>_. then_do (emit (Log ''WARNING''
                     [Lit ''Please edit the config file with your actual email credentials'']))
          (\<lambda>_. returns default_config))))
      | Some (Inr accounts) \<Rightarrow> returns accounts
      | Some (Inl e) \<Rightarrow>
          (case e of
             JSONDecodeError _ \<Rightarrow>
               then_do (emit (Log ''ERROR'' [Lit ''Config file is not valid JSON'']))
               (\<lambda>_. raises e)
           | _ \<Rightarrow> raises e))"

record EmailCounter =
  accounts :: "account list"
  handlers :: handlers

text \<open>The constructor, \<open>__attrs_post_init__\<close>.\<close>

definition new_EmailCounter :: "world \<Rightarrow> EmailCounter io" where
  "new_EmailCounter w =
     then_do (ensure_config_dir w)
     (\<lambda>_. then_do (load_config w)
     (\<lambda>accts. then_do (setup_handlers [] accts)
     (\<lambda>hs. returns \<lparr> accounts = accts, handlers = hs \<rparr>)))"

text \<open>\<open>handler.get_unread_count()\<close> on either variant, for the \<open>i\<close>-th handler checked.\<close>

definition get_unread_count :: "world \<Rightarrow> nat \<Rightarrow> handler \<Rightarrow> int io" where
  "get_unread_count w i h =
     (case h of
        Gmail g \<Rightarrow> then_do (gmail_get_unread_count g (gmail_script w i)) (\<lambda>(count, _). returns count)
      | Imap m \<Rightarrow> imap_get_unread_count m (imap_script w i))"

type_synonym results = "(json \<times> int) list"

fun check_from :: "world \<Rightarrow> nat \<Rightarrow> handlers \<Rightarrow> results \<Rightarrow> results io" where
  "check_from w i [] results = returns results"
| "check_from w i ((name, h) # rest) results =
     (case get_unread_count w i h of
        (evs, Inl e) \<Rightarrow> (evs, Inl e)
      | (evs, Inr count) \<Rightarrow>
          (case check_from w (Suc i) rest (dict_set results name count) of
             (evs', r) \<Rightarrow> (evs @ evs', r)))"

definition check_all_accounts :: "world \<Rightarrow> EmailCounter \<Rightarrow> results io" where
  "check_all_accounts w counter = check_from w 0 (handlers counter) []"

text \<open>
  \<open>json.dump\<close> writes every key as a string; read back, a key written twice keeps its
  first place and its last value.
\<close>

definition json_key :: "json \<Rightarrow> string" where
  "json_key k = (case k of JStr s \<Rightarrow> s | JInt i \<Rightarrow> str_int i | _ \<Rightarrow> ''null'')"

definition dumped_counts :: "results \<Rightarrow> json" where
  "dumped_counts results =
     JObj (fold (\<lambda>(k, count) kvs. dict_set kvs (json_key k) (JInt count)) results [])"

definition result_document :: "dtlib \<Rightarrow> int \<Rightarrow> results \<Rightarrow> json" where
  "result_document lib now results =
     JObj [(''timestamp'', JStr (isoformat lib now)), (''counts'', dumped_counts results)]"

text \<open>Returns the file system after the write.\<close>

definition save_results :: "dtlib \<Rightarrow> world \<Rightarrow> results \<Rightarrow> fs io" where
  "save_results lib w results =
     (let data = result_document lib (save_now w) results
      in then_do (call WriteResults (results_write w))
         (\<lambda>_. then_do (emit (Chmod email_check_RESULTS_PATH))
         (\<lambda>_. then_do (emit (Log ''INFO'' [Lit ''Results saved to '', Lit email_check_RESULTS_PATH]))
         (\<lambda>_. returns ((store w)(email_check_RESULTS_PATH \<mapsto> Inr data))))))"

section \<open>email_check.py: the command line\<close>

record check_args =
  output_json :: bool
  output_text :: bool
  configure :: bool

text \<open>One round of the loop of \<open>configure_account_passwords\<close>, at the \<open>i\<close>-th account.\<close>

definition configure_account :: "world \<Rightarrow> nat \<Rightarrow> account \<Rightarrow> unit io" where
  "configure_account w i acct =
     then_do (subscript acct ''type'')
     (\<lambda>type.
        if type \<noteq> JStr ''gmail'' then
          then_do (subscript acct ''email'')
          (\<lambda>email. then_do (subscript acct ''name'')
          (\<lambda>name. then_do (emit (Print
                     [Lit (CHR 0x0A # ''Account: ''), Fmt name, Lit '' ('', Fmt email, Lit '')'']))
          (\<lambda>_. then_do (call Input (choice (configure_script w i)))
          (\<lambda>answer.
             if answer = ''y'' \<or> answer = ''Y'' then
               then_do (emit (Print [Lit ''Enter new password:'']))
               (\<lambda>_. then_do (call Getpass (new_password (configure_script w i)))
               (\<lambda>password. then_do (call (KeyringSet email) (store_password (configure_script w i)))
               (\<lambda>_. emit (Print [Lit ''Password updated for '', Fmt email]))))
             else returns ()))))
        else returns ())"

fun configure_from :: "world \<Rightarrow> nat \<Rightarrow> account list \<Rightarrow> unit io" where
  "configure_from w i [] = returns ()"
| "configure_from w i (acct # rest) =
     (case configure_account w i acct of
        (evs, Inl e) \<Rightarrow> (evs, Inl e)
      | (evs, Inr _) \<Rightarrow>
          (case configure_from w (Suc i) rest of (evs', r) \<Rightarrow> (evs @ evs', r)))"

definition configure_account_passwords :: "world \<Rightarrow> unit io" where
  "configure_account_passwords w =
     then_do (new_EmailCounter w)
     (\<lambda>counter. then_do (emit (Print [Lit ''Setting up passwords for email accounts in keyring'']))
     (\<lambda>_. configure_from w 0 (accounts counter)))"

text \<open>The text listing of lines 331 to 339 and the JSON line of lines 321 to 328.\<close>

definition print_result :: "json \<times> int \<Rightarrow> event" where
  "print_result item =
     (case item of
        (name, count) \<Rightarrow>
          if count \<ge> 0 then Print [Fmt name, Lit '': '', Lit (str_int count), Lit '' unread'']
          else Print [Fmt name, Lit '': Error checking inbox''])"

definition report :: "dtlib \<Rightarrow> world \<Rightarrow> check_args \<Rightarrow> results \<Rightarrow> unit io" where
  "report lib w args results =
     (if output_json args then
        emit (PrintDumps (isoformat lib (print_now w)) results)
      else if output_text args \<or> \<not> output_json args then
        ([Print [Lit ''--- Email Inbox Counts ---'']] @ map print_result results @
         [Print [Lit ''Last checked: '', Lit (strftime lib (Naive (print_now w)))]], Inr ())
      else returns ())"

text \<open>\<open>counter.accounts[0]\<close>.\<close>

definition first_item :: "'a list \<Rightarrow> exc + 'a" where
  "first_item xs = (case xs of [] \<Rightarrow> Inl (IndexError ''list index out of range'') | x # _ \<Rightarrow> Inr x)"

text \<open>
  \<open>main\<close> yields its exit code and the file system it leaves; the events it caused are
  the first component.
\<close>

definition main :: "dtlib \<Rightarrow> world \<Rightarrow> check_args \<Rightarrow> (int \<times> fs) io" where
  "main lib w args =
     (if configure args then
        then_do (configure_account_passwords w) (\<lambda>_. returns (0, store w))
      else
        then_do (new_EmailCounter w)
        (\<lambda>counter. then_do (lift (first_item (accounts counter)))
        (\<lambda>first_account.
           if first_account ''email'' = Some (JStr ''your.email@gmail.com'') then
             then_do (emit (Log ''WARNING'' [Lit ''Please edit the config file before running'']))
             (\<lambda>_. then_do (emit (Print [Lit ''Edit the configuration file at: '', Lit CONFIG_PATH]))
             (\<lambda>_. returns (1, store w)))
           else
             catch
               (then_do (check_all_accounts w counter)
                (\<lambda>results. then_do (save_results lib w results)
                (\<lambda>files. then_do (report lib w args results)
                (\<lambda>_. returns (0, files)))))
               (\<lambda>e. then_do (emit (Log ''ERROR'' [Lit ''Unexpected error: '', Lit (str_exc e)]))
                     (\<lambda>_. then_do (emit (Print [Lit ''Error occurred: '', Lit (str_exc e)]))
                     (\<lambda>_. returns (1, store w)))))))"

section \<open>Sample worlds\<close>

text \<open>
  A toy datetime library that counts microseconds from \<open>2024-01-01T00:00:00\<close> and parses
  that one string only.
\<close>

definition sample_lib :: dtlib where
  "sample_lib =
     \<lparr> fromisoformat = (\<lambda>s. if s = ''2024-01-01T00:00:00'' then Inr (Naive 0)
                           else Inl (ValueError ''Invalid isoformat string'')),
       isoformat = (\<lambda>us. if us = 0 then ''2024-01-01T00:00:00'' else ''2024-01-01T00:00:00+'' @ str_int us),
       strftime = (\<lambda>t. case t of Naive us \<Rightarrow> (if us = 0 then ''2024-01-01 00:00:00'' else ''later'')
                        | Aware us \<Rightarrow> ''aware'') \<rparr>"

text \<open>An IMAP session in which every call succeeds and three messages are unseen.\<close>

definition calm_imap :: imap_session where
  "calm_imap =
     \<lparr> connect = Inr (), keyring_get = Inr (Some ''secret''), getpass_input = Inr ''secret'',
       keyring_set = Inr (), login = Inr (), select_inbox = Inr (),
       search_unseen = Inr (''OK'', [Some ''1 2 3'']), logout = Inr () \<rparr>"

text \<open>
  A Gmail session with a valid stored token, in which every call succeeds and two messages
  are unread.
\<close>

definition calm_gmail :: gmail_session where
  "calm_gmail =
     \<lparr> token_exists = True,
       pickle_load = Inr \<lparr> valid = True, expired = False, refresh_token = True \<rparr>,
       creds_refresh = Inr (), secret_exists = True, secrets_load = Inr (),
       run_local_server = Inr (), pickle_dump = Inr (), build_service = Inr (),
       list_unread = Inr (JObj [(''messages'', JArr [JObj [(''id'', JStr ''a'')], JObj [(''id'', JStr ''b'')]])]) \<rparr>"

text \<open>The same, but the stored token has expired and refreshing it fails on the network.\<close>

definition stale_gmail :: gmail_session where
  "stale_gmail =
     calm_gmail \<lparr> pickle_load := Inr \<lparr> valid = False, expired = True, refresh_token = True \<rparr>,
                  creds_refresh := Inl (LibraryError ''TransportError: connection refused'') \<rparr>"

definition work_account :: account where
  "work_account = [''name'' \<mapsto> JStr ''Work'', ''email'' \<mapsto> JStr ''me@example.org'',
                   ''type'' \<mapsto> JStr ''imap'', ''imap_server'' \<mapsto> JStr ''imap.example.org'',
                   ''imap_port'' \<mapsto> JInt 993]"

definition gmail_account :: account where
  "gmail_account = [''name'' \<mapsto> JStr ''Private'', ''email'' \<mapsto> JStr ''me@gmail.com'',
                    ''type'' \<mapsto> JStr ''gmail'']"

definition calm_world :: world where
  "calm_world =
     \<lparr> mkdirs = Inr (), config_file = Some (Inr [gmail_account, work_account]),
       config_write = Inr (), gmail_script = (\<lambda>i. calm_gmail), imap_script = (\<lambda>i. calm_imap),
       configure_script = (\<lambda>i. \<lparr> choice = Inr ''n'', new_password = Inr ''secret'',
                                   store_password = Inr () \<rparr>),
       results_write = Inr (), save_now = 0, print_now = 0, store = Map.empty \<rparr>"

definition no_flags :: check_args where
  "no_flags = \<lparr> output_json = False, output_text = False, configure = False \<rparr>"

definition default_view :: status_args where
  "default_view = \<lparr> json_flag = False, legacy_path = False \<rparr>"

definition json_view :: status_args where
  "json_view = \<lparr> json_flag = True, legacy_path = False \<rparr>"

definition stale_world :: world where
  "stale_world = calm_world \<lparr> gmail_script := (\<lambda>i. stale_gmail) \<rparr>"

definition sample_counter :: EmailCounter where
  "sample_counter =
     \<lparr> accounts = [gmail_account, work_account],
       handlers =
         [(JStr ''Private'',
           Gmail \<lparr> account_name = JStr ''Private'', email = JStr ''me@gmail.com'', service = False \<rparr>),
          (JStr ''Work'', Imap \<lparr> account = work_account \<rparr>)] \<rparr>"

text \<open>The store after the checker has saved one count at time 0.\<close>

definition saved_store :: fs where
  "saved_store =
     (store calm_world)(email_check_RESULTS_PATH \<mapsto>
        Inr (JObj [(''timestamp'', JStr ''2024-01-01T00:00:00''),
                   (''counts'', JObj [(''Work'', JInt 3)])]))"

text \<open>A store that holds the same document where the Status Reporter looks for it.\<close>

definition status_store :: fs where
  "status_store =
     Map.empty(show_status_RESULTS_PATH \<mapsto>
        Inr (JObj [(''timestamp'', JStr ''2024-01-01T00:00:00''),
                   (''counts'', JObj [(''Work'', JInt 3)])]))"

text \<open>A first run: no config file yet, so the template is written and loaded.\<close>

definition fresh_world :: world where
  "fresh_world = calm_world \<lparr> config_file := None \<rparr>"

text \<open>A config that is the template followed by a descriptor without a name.\<close>

definition nameless_account :: account where
  "nameless_account = [''email'' \<mapsto> JStr ''me@example.org'', ''type'' \<mapsto> JStr ''imap'']"

definition nameless_world :: world where
  "nameless_world = calm_world \<lparr> config_file := Some (Inr (default_config @ [nameless_account])) \<rparr>"

text \<open>A second descriptor named \<open>Work\<close>, of Gmail type, and the handler built from it.\<close>

definition work_twin :: account where
  "work_twin = [''name'' \<mapsto> JStr ''Work'', ''email'' \<mapsto> JStr ''other@gmail.com'',
                ''type'' \<mapsto> JStr ''gmail'']"

definition twin_handler :: handler where
  "twin_handler =
     Gmail \<lparr> account_name = JStr ''Work'', email = JStr ''other@gmail.com'', service = False \<rparr>"

text \<open>
  A config in which \<open>Work\<close> is first declared as a Gmail account and later as an IMAP
  account, and the Registry built from it.
\<close>

definition twin_counter :: EmailCounter where
  "twin_counter =
     \<lparr> accounts = [] @ work_twin # [gmail_account] @ work_account # [],
       handlers =
         [(JStr ''Work'', Imap \<lparr> account = work_account \<rparr>),
          (JStr ''Private'',
           Gmail \<lparr> account_name = JStr ''Private'', email = JStr ''me@gmail.com'', service = False \<rparr>)] \<rparr>"

section \<open>Events of an account check\<close>

text \<open>
  The events that only a handler's \<open>get_unread_count\<close> (or the password utility) causes:
  every call into the OAuth, Gmail, keyring and IMAP libraries.
\<close>

fun handler_event :: "event \<Rightarrow> bool" where
  "handler_event (Log _ _) = False"
| "handler_event (Print _) = False"
| "handler_event (PrintDumps _ _) = False"
| "handler_event MkDirs = False"
| "handler_event WriteTemplate = False"
| "handler_event (Chmod _) = False"
| "handler_event Input = False"
| "handler_event WriteResults = False"
| "handler_event _ = True"

section \<open>Basic facts\<close>

lemmas io_defs =
  returns_def raises_def emit_def call_def lift_def then_do_def catch_def subscript_def

lemma map_of_dict_set: "map_of (dict_set kvs k v) = (map_of kvs)(k \<mapsto> v)"
  by (induction kvs) (auto simp: fun_eq_iff)

lemma make_handler_events: "fst (make_handler acct) = []"
  by (simp add: make_handler_def io_defs split: option.splits)

lemma setup_handler_events: "fst (setup_handler hs acct) = []"
  by (simp add: setup_handler_def make_handler_def io_defs hashable_def
      split: option.splits json.splits)

lemma setup_handlers_events: "fst (setup_handlers hs accts) = []"
proof (induction accts arbitrary: hs)
  case Nil
  show ?case by (simp add: returns_def)
next
  case (Cons a accts)
  obtain r where r: "setup_handler hs a = ([], r)"
    using setup_handler_events [of hs a] by (cases "setup_handler hs a") simp
  show ?case
  proof (cases r)
    case (Inl e)
    with r show ?thesis by simp
  next
    case (Inr hs')
    with r Cons.IH [of hs'] show ?thesis
      by (cases "setup_handlers hs' accts") simp
  qed
qed

lemma load_config_events: "list_all (\<lambda>ev. \<not> handler_event ev) (fst (load_config w))"
  by (simp add: load_config_def io_defs split: option.splits sum.splits exc.splits)

lemma new_EmailCounter_events:
  "list_all (\<lambda>ev. \<not> handler_event ev) (fst (new_EmailCounter w))"
proof -
  have "fst (new_EmailCounter w) = [MkDirs]
        \<or> fst (new_EmailCounter w) = MkDirs # fst (load_config w)"
    using setup_handlers_events
    apply (simp add: new_EmailCounter_def ensure_config_dir_def then_do_def call_def returns_def
        split: sum.splits prod.splits)
    by (metis fst_conv)
  then show ?thesis using load_config_events [of w] by auto
qed

lemma setup_handler_describable:
  "describable acct \<Longrightarrow> \<exists>hs'. setup_handler hs acct = ([], Inr hs')"
  by (auto simp: describable_def setup_handler_def make_handler_def io_defs
      split: option.splits if_splits)

lemma setup_handler_not_describable:
  "\<not> describable acct \<Longrightarrow> \<exists>e. setup_handler hs acct = ([], Inl e)"
  by (auto simp: describable_def setup_handler_def make_handler_def io_defs hashable_def
      split: option.splits if_splits json.splits)

lemma setup_handlers_describable:
  "list_all describable accts \<Longrightarrow> \<exists>hs'. setup_handlers hs accts = ([], Inr hs')"
proof (induction accts arbitrary: hs)
  case Nil
  show ?case by (simp add: returns_def)
next
  case (Cons a accts)
  from Cons.prems obtain mid where m: "setup_handler hs a = ([], Inr mid)"
    using setup_handler_describable [of a hs] by auto
  from Cons.prems Cons.IH [of mid] obtain hs' where "setup_handlers mid accts = ([], Inr hs')"
    by auto
  with m show ?case by simp
qed

lemma setup_handlers_not_describable:
  "\<not> list_all describable accts \<Longrightarrow> \<exists>e. setup_handlers hs accts = ([], Inl e)"
proof (induction accts arbitrary: hs)
  case Nil
  then show ?case by simp
next
  case (Cons a accts)
  show ?case
  proof (cases "describable a")
    case False
    from setup_handler_not_describable [OF this, of hs] show ?thesis by auto
  next
    case True
    from setup_handler_describable [OF this, of hs] obtain mid where
      m: "setup_handler hs a = ([], Inr mid)" by auto
    from True Cons.prems have "\<not> list_all describable accts" by simp
    from Cons.IH [OF this, of mid] m show ?thesis by auto
  qed
qed

section \<open>The Result Store round trip\<close>

text \<open>
  C1. A document written by \<open>save_results\<close> is not what the Status Reporter reads: the
  checker writes under \<open>~/.config/email_check\<close>, the reporter looks under
  \<open>~/.config/email_counter\<close>. After the checker has saved the count of one account into an
  empty store, the reporter run with no flags finds no data and exits with code 1.
\<close>

theorem saved_results_not_found_by_reporter:
  "save_results sample_lib calm_world [(JStr ''Work'', 3)] =
     ([WriteResults, Chmod email_check_RESULTS_PATH,
       Log ''INFO'' [Lit ''Results saved to '', Lit email_check_RESULTS_PATH]], Inr saved_store)
   \<and> show_status_main sample_lib 5000000 default_view saved_store =
       \<lparr> exit_code = 1,
         printed = [Text ''No email status data found. Run email_counter first.'',
                    Text ''Expected path: ~/.config/email_counter/last_results.json''],
         files_after = saved_store \<rparr>"
  by (simp add: save_results_def io_defs saved_store_def calm_world_def sample_lib_def
      result_document_def dumped_counts_def json_key_def show_status_main_def locate_results_def
      default_view_def show_status_RESULTS_PATH_def show_status_CONFIG_DIR_def
      email_check_RESULTS_PATH_def email_check_CONFIG_DIR_def)

section \<open>GmailHandler\<close>

text \<open>
  C2. \<open>GmailHandler.get_unread_count\<close> calls \<open>authenticate\<close> outside its \<open>try\<close>. With a
  stored token that has expired and a refresh that fails on the network, the exception of
  \<open>creds.refresh\<close> leaves \<open>get_unread_count\<close>: no int is returned.
\<close>

theorem gmail_refresh_error_propagates:
  "gmail_get_unread_count
     \<lparr> account_name = JStr ''Private'', email = JStr ''me@gmail.com'', service = False \<rparr>
     stale_gmail
   = ([PickleLoad (JStr ''me@gmail.com''), CredsRefresh],
      Inl (LibraryError ''TransportError: connection refused''))"
  by (simp add: gmail_get_unread_count_def authenticate_def io_defs stale_gmail_def calm_gmail_def)

section \<open>The Registry\<close>

text \<open>
  C3, as the claim states it, fails: a descriptor of type \<open>oauth_mail\<close> gets the IMAP
  handler, and one of type \<open>gmail\<close> gets the OAuth handler.
\<close>

theorem oauth_mail_marker_counterexample:
  "make_handler (work_account(''type'' \<mapsto> JStr ''oauth_mail''))
     = ([], Inr (Imap \<lparr> account = work_account(''type'' \<mapsto> JStr ''oauth_mail'') \<rparr>))
   \<and> make_handler gmail_account
     = ([], Inr (Gmail \<lparr> account_name = JStr ''Private'', email = JStr ''me@gmail.com'',
                         service = False \<rparr>))"
  by (simp add: make_handler_def io_defs work_account_def gmail_account_def)

text \<open>
  C3 (amended). For every account descriptor that has a type, a hashable name and, when
  its type is \<open>gmail\<close>, an email, the Registry stores under that name the OAuth handler if
  and only if the type is exactly the string \<open>gmail\<close>; every other type value, unrecognized
  or misspelled ones included, yields the IMAP handler.
\<close>

theorem setup_handler_dispatch:
  assumes "acct ''type'' = Some t" and "acct ''name'' = Some n" and "hashable n = Inr n"
    and "t = JStr ''gmail'' \<longrightarrow> acct ''email'' = Some e"
  shows "setup_handler hs acct =
           ([], Inr (dict_set hs n
              (if t = JStr ''gmail''
               then Gmail \<lparr> account_name = n, email = e, service = False \<rparr>
               else Imap \<lparr> account = acct \<rparr>)))
         \<and> map_of (dict_set hs n
              (if t = JStr ''gmail''
               then Gmail \<lparr> account_name = n, email = e, service = False \<rparr>
               else Imap \<lparr> account = acct \<rparr>)) n
            = Some (if t = JStr ''gmail''
               then Gmail \<lparr> account_name = n, email = e, service = False \<rparr>
               else Imap \<lparr> account = acct \<rparr>)"
  using assms by (simp add: setup_handler_def make_handler_def io_defs map_of_dict_set)

theorem setup_handler_dispatch_witness:
  "gmail_account ''type'' = Some (JStr ''gmail'')
   \<and> gmail_account ''name'' = Some (JStr ''Private'')
   \<and> hashable (JStr ''Private'') = Inr (JStr ''Private'')
   \<and> gmail_account ''email'' = Some (JStr ''me@gmail.com'')
   \<and> setup_handler [] gmail_account =
       ([], Inr [(JStr ''Private'',
                  Gmail \<lparr> account_name = JStr ''Private'', email = JStr ''me@gmail.com'',
                          service = False \<rparr>)])
   \<and> work_account ''type'' = Some (JStr ''imap'')
   \<and> work_account ''name'' = Some (JStr ''Work'')
   \<and> hashable (JStr ''Work'') = Inr (JStr ''Work'')
   \<and> setup_handler [] work_account = ([], Inr [(JStr ''Work'', Imap \<lparr> account = work_account \<rparr>)])"
proof -
  have g: "setup_handler [] gmail_account =
       ([], Inr [(JStr ''Private'',
                  Gmail \<lparr> account_name = JStr ''Private'', email = JStr ''me@gmail.com'',
                          service = False \<rparr>)])"
    using setup_handler_dispatch [of gmail_account "JStr ''gmail''" "JStr ''Private''"
        "JStr ''me@gmail.com''" "[]"]
    by (simp add: gmail_account_def hashable_def)
  have t: "work_account ''type'' = Some (JStr ''imap'')"
    and n: "work_account ''name'' = Some (JStr ''Work'')"
    by (simp_all add: work_account_def)
  have w: "setup_handler [] work_account = ([], Inr [(JStr ''Work'', Imap \<lparr> account = work_account \<rparr>)])"
    using setup_handler_dispatch [of work_account "JStr ''imap''" "JStr ''Work''" JNull "[]"] t n
    by (simp add: hashable_def)
  from g t n w show ?thesis by (simp add: gmail_account_def hashable_def)
qed

section \<open>ImapHandler\<close>

text \<open>
  C4. When the UNSEEN search reports \<open>NO\<close>, \<open>ImapHandler.get_unread_count\<close> returns \<open>-1\<close>
  from inside the \<open>try\<close> without calling \<open>mail.logout()\<close>: the session is connected, logged
  in and searched, and no logout follows.
\<close>

theorem imap_failed_search_skips_logout:
  "imap_get_unread_count \<lparr> account = work_account \<rparr>
       (calm_imap \<lparr> search_unseen := Inr (''NO'', []) \<rparr>)
   = ([ImapConnect (JStr ''imap.example.org'') (JInt 993), KeyringGet (JStr ''me@example.org''),
       ImapLogin (JStr ''me@example.org''), ImapSelect, ImapSearch,
       Log ''ERROR'' [Lit ''Failed to search for UNSEEN messages in '', Fmt (JStr ''Work'')]],
      Inr (- 1))"
  by (simp add: imap_get_unread_count_def get_password_def io_defs calm_imap_def work_account_def)

section \<open>The relative-time formatter\<close>

text \<open>
  The four offsets of the specification and the singular forms of seconds, minutes and
  hours come out as expected.
\<close>

lemma time_ago_examples:
  "time_ago (timedelta_of 45000000) = ''45 seconds ago''"
  "time_ago (timedelta_of (5 * 60000000)) = ''5 minutes ago''"
  "time_ago (timedelta_of (3 * 3600000000)) = ''3 hours ago''"
  "time_ago (timedelta_of (2 * 86400000000)) = ''2 days ago''"
  "time_ago (timedelta_of 1000000) = ''1 second ago''"
  "time_ago (timedelta_of 60000000) = ''1 minute ago''"
  "time_ago (timedelta_of 3600000000) = ''1 hour ago''"
  by (simp_all add: time_ago_def timedelta_of_def str_int_def digit_char_def)

text \<open>
  C5. \<open>format_time_ago\<close> has no singular form for days: a timestamp exactly one day old is
  rendered as \<open>1 days ago\<close>.
\<close>

theorem one_day_is_rendered_plural:
  "format_time_ago sample_lib 86400000000 (JStr ''2024-01-01T00:00:00'') = Inr ''1 days ago''"
  by (simp add: format_time_ago_def parse_timestamp_def sample_lib_def datetime_sub_def timedelta_of_def time_ago_def
      str_int_def digit_char_def)

section \<open>Checking all accounts\<close>

text \<open>
  C6. With a Gmail account whose token refresh fails on the network,
  \<open>check_all_accounts\<close> returns no mapping: the exception of \<open>authenticate\<close> leaves the
  loop before the IMAP account is checked.
\<close>

theorem check_all_accounts_aborted_by_refresh_error:
  "new_EmailCounter stale_world = ([MkDirs], Inr sample_counter)
   \<and> check_all_accounts stale_world sample_counter
     = ([PickleLoad (JStr ''me@gmail.com''), CredsRefresh],
        Inl (LibraryError ''TransportError: connection refused''))"
  by (simp add: new_EmailCounter_def ensure_config_dir_def load_config_def setup_handler_def
      make_handler_def hashable_def check_all_accounts_def get_unread_count_def
      gmail_get_unread_count_def authenticate_def io_defs stale_world_def calm_world_def
      sample_counter_def stale_gmail_def calm_gmail_def gmail_account_def work_account_def)

section \<open>The placeholder guard\<close>

text \<open>
  C7, as the claim states it, fails: \<open>EmailCounter()\<close> is constructed before the guard
  and outside the \<open>try\<close>, so with the untouched template followed by a descriptor that
  has no name, \<open>main\<close> raises the \<open>KeyError\<close> of \<open>_setup_handlers\<close> instead of returning 1.
\<close>

theorem placeholder_malformed_counterexample:
  "\<not> configure no_flags
   \<and> load_config nameless_world = ([], Inr (default_config @ [nameless_account]))
   \<and> hd (default_config @ [nameless_account]) ''email'' = Some (JStr ''your.email@gmail.com'')
   \<and> main sample_lib nameless_world no_flags = ([MkDirs], Inl (KeyError ''name''))"
  by (simp add: main_def new_EmailCounter_def ensure_config_dir_def load_config_def
      setup_handler_def make_handler_def hashable_def io_defs nameless_world_def calm_world_def
      nameless_account_def default_config_def no_flags_def)

text \<open>
  C7 (amended). If \<open>--configure\<close> is not given and the configuration has been loaded
  (the config directory is ensured and the file is absent or parses to a list with a first
  account) and is in placeholder state (the email of its first account is
  \<open>your.email@gmail.com\<close>), then nothing \<open>main\<close> does is a call of a handler: no account
  is checked. When every descriptor has a type, a hashable name and, for type \<open>gmail\<close>, an
  email, \<open>main\<close> returns exit code 1 after a warning and one printed line; otherwise the
  exception of \<open>_setup_handlers\<close> leaves \<open>main\<close>.
\<close>

theorem placeholder_config_refused:
  assumes "\<not> configure args" and "mkdirs w = Inr ()"
    and "load_config w = (evs, Inr (first_account # rest))"
    and "first_account ''email'' = Some (JStr ''your.email@gmail.com'')"
  shows "list_all (\<lambda>ev. \<not> handler_event ev) (fst (main lib w args))
         \<and> (list_all describable (first_account # rest) \<longrightarrow>
              main lib w args =
                (MkDirs # evs @
                   [Log ''WARNING'' [Lit ''Please edit the config file before running''],
                    Print [Lit ''Edit the configuration file at: '', Lit CONFIG_PATH]],
                 Inr (1, store w)))
         \<and> (\<not> list_all describable (first_account # rest) \<longrightarrow>
              (\<exists>e. main lib w args = (MkDirs # evs, Inl e)))"
proof -
  have quiet: "list_all (\<lambda>ev. \<not> handler_event ev) evs"
    using load_config_events [of w] assms(3) by simp
  have good: "main lib w args =
                (MkDirs # evs @
                   [Log ''WARNING'' [Lit ''Please edit the config file before running''],
                    Print [Lit ''Edit the configuration file at: '', Lit CONFIG_PATH]],
                 Inr (1, store w))"
    if "list_all describable (first_account # rest)"
  proof -
    from setup_handlers_describable [OF that, of "[]"] obtain hs where
      "setup_handlers [] (first_account # rest) = ([], Inr hs)" by blast
    with assms show ?thesis
      by (simp add: main_def new_EmailCounter_def ensure_config_dir_def first_item_def io_defs)
  qed
  have bad: "\<exists>e. main lib w args = (MkDirs # evs, Inl e)"
    if "\<not> list_all describable (first_account # rest)"
  proof -
    from setup_handlers_not_describable [OF that, of "[]"] obtain e where
      "setup_handlers [] (first_account # rest) = ([], Inl e)" by blast
    with assms show ?thesis
      by (simp add: main_def new_EmailCounter_def ensure_config_dir_def first_item_def io_defs)
  qed
  have "list_all (\<lambda>ev. \<not> handler_event ev) (fst (main lib w args))"
  proof (cases "list_all describable (first_account # rest)")
    case True
    from good [OF True] quiet show ?thesis by simp
  next
    case False
    from bad [OF False] quiet show ?thesis by auto
  qed
  with good bad show ?thesis by blast
qed

theorem placeholder_config_refused_witness:
  "\<not> configure no_flags
   \<and> mkdirs fresh_world = Inr ()
   \<and> load_config fresh_world =
       ([Log ''INFO'' [Lit ''Config file not found, creating template at '', Lit CONFIG_PATH],
         WriteTemplate, Chmod CONFIG_PATH,
         Log ''WARNING'' [Lit ''Please edit the config file with your actual email credentials'']],
        Inr (hd default_config # tl default_config))
   \<and> hd default_config ''email'' = Some (JStr ''your.email@gmail.com'')
   \<and> list_all describable (hd default_config # tl default_config)
   \<and> main sample_lib fresh_world no_flags =
       ([MkDirs,
         Log ''INFO'' [Lit ''Config file not found, creating template at '', Lit CONFIG_PATH],
         WriteTemplate, Chmod CONFIG_PATH,
         Log ''WARNING'' [Lit ''Please edit the config file with your actual email credentials''],
         Log ''WARNING'' [Lit ''Please edit the config file before running''],
         Print [Lit ''Edit the configuration file at: '', Lit CONFIG_PATH]],
        Inr (1, store fresh_world))
   \<and> mkdirs nameless_world = Inr ()
   \<and> load_config nameless_world
       = ([], Inr (hd default_config # tl default_config @ [nameless_account]))
   \<and> \<not> list_all describable (hd default_config # tl default_config @ [nameless_account])
   \<and> fst (main sample_lib nameless_world no_flags) = [MkDirs]"
proof -
  have a: "\<not> configure no_flags" by (simp add: no_flags_def)
  have k: "mkdirs fresh_world = Inr ()" by (simp add: fresh_world_def calm_world_def)
  have l: "load_config fresh_world =
       ([Log ''INFO'' [Lit ''Config file not found, creating template at '', Lit CONFIG_PATH],
         WriteTemplate, Chmod CONFIG_PATH,
         Log ''WARNING'' [Lit ''Please edit the config file with your actual email credentials'']],
        Inr (hd default_config # tl default_config))"
    by (simp add: load_config_def io_defs fresh_world_def calm_world_def default_config_def)
  have c: "hd default_config ''email'' = Some (JStr ''your.email@gmail.com'')"
    by (simp add: default_config_def)
  have d: "list_all describable (hd default_config # tl default_config)"
    by (simp add: default_config_def describable_def hashable_def)
  have k': "mkdirs nameless_world = Inr ()" by (simp add: nameless_world_def calm_world_def)
  have l': "load_config nameless_world
       = ([], Inr (hd default_config # tl default_config @ [nameless_account]))"
    by (simp add: load_config_def io_defs nameless_world_def calm_world_def default_config_def)
  have d': "\<not> list_all describable (hd default_config # tl default_config @ [nameless_account])"
    by (simp add: describable_def nameless_account_def)
  from placeholder_config_refused [OF a k l c, of sample_lib] d
  have good: "main sample_lib fresh_world no_flags =
       ([MkDirs,
         Log ''INFO'' [Lit ''Config file not found, creating template at '', Lit CONFIG_PATH],
         WriteTemplate, Chmod CONFIG_PATH,
         Log ''WARNING'' [Lit ''Please edit the config file with your actual email credentials''],
         Log ''WARNING'' [Lit ''Please edit the config file before running''],
         Print [Lit ''Edit the configuration file at: '', Lit CONFIG_PATH]],
        Inr (1, store fresh_world))"
    by simp
  from placeholder_config_refused [OF a k' l' c, of sample_lib] d'
  have bad: "fst (main sample_lib nameless_world no_flags) = [MkDirs]"
    by auto
  from a k l c d good k' l' d' bad show ?thesis by blast
qed

section \<open>The outcome of an IMAP check\<close>

lemma snd_then_do: "snd (then_do m f) = (case snd m of Inl e \<Rightarrow> Inl e | Inr x \<Rightarrow> snd (f x))"
  by (simp add: then_do_def split: prod.splits sum.splits)

lemma snd_catch: "snd (catch m h) = (case snd m of Inl e \<Rightarrow> snd (h e) | Inr x \<Rightarrow> Inr x)"
  by (simp add: catch_def split: prod.splits sum.splits)

lemma snd_io [simp]:
  "snd (returns x) = Inr x" "snd (raises e) = Inl e" "snd (emit ev) = Inr ()"
  "snd (call ev r) = r" "snd (lift r) = r"
  by (simp_all add: io_defs)

lemma snd_subscript: "snd (subscript a k) = (case a k of None \<Rightarrow> Inl (KeyError k) | Some v \<Rightarrow> Inr v)"
  by (simp add: io_defs split: option.splits)

lemma imap_result:
  assumes "account h ''name'' = Some name"
  shows "snd (imap_get_unread_count h s) =
    (case account h ''imap_server'' of None \<Rightarrow> Inr (- 1) | Some server \<Rightarrow>
     (case account h ''imap_port'' of None \<Rightarrow> Inr (- 1) | Some port \<Rightarrow>
     (case connect s of Inl e \<Rightarrow> Inr (- 1) | Inr _ \<Rightarrow>
     (case snd (get_password h s) of Inl e \<Rightarrow> Inr (- 1) | Inr password \<Rightarrow>
     (case account h ''email'' of None \<Rightarrow> Inr (- 1) | Some addr \<Rightarrow>
     (case login s of Inl e \<Rightarrow> Inr (- 1) | Inr _ \<Rightarrow>
     (case select_inbox s of Inl e \<Rightarrow> Inr (- 1) | Inr _ \<Rightarrow>
     (case search_unseen s of Inl e \<Rightarrow> Inr (- 1) | Inr (status, response) \<Rightarrow>
     (if status \<noteq> ''OK'' then Inr (- 1) else
     (case first_tokens response of Inl e \<Rightarrow> Inr (- 1) | Inr tokens \<Rightarrow>
     (case logout s of Inl e \<Rightarrow> Inr (- 1) | Inr _ \<Rightarrow> Inr (int (length tokens)))))))))))))"
  using assms
  by (simp add: imap_get_unread_count_def snd_then_do snd_catch snd_subscript Let_def
      split: option.splits sum.splits prod.splits)

lemma split_from_token:
  assumes "\<forall>c \<in> set t. \<not> is_space c"
  shows "split_from cur (t @ rest) = split_from (cur @ t) rest"
  using assms by (induction t arbitrary: cur) simp_all

lemma split_from_tokens:
  assumes "\<forall>t \<in> set ts. t \<noteq> [] \<and> (\<forall>c \<in> set t. \<not> is_space c)"
  shows "split_from [] (concat (map (\<lambda>t. t @ '' '') ts) @ rest) = ts @ split_from [] rest"
  using assms
proof (induction ts)
  case Nil
  show ?case by simp
next
  case (Cons t ts)
  then have t: "t \<noteq> []" "\<forall>c \<in> set t. \<not> is_space c" by auto
  have "split_from [] (t @ '' '' @ concat (map (\<lambda>t. t @ '' '') ts) @ rest)
          = split_from t ('' '' @ concat (map (\<lambda>t. t @ '' '') ts) @ rest)"
    using split_from_token [OF t(2), of "[]"] by simp
  also have "\<dots> = t # split_from [] (concat (map (\<lambda>t. t @ '' '') ts) @ rest)"
    using t(1) by (simp add: is_space_def)
  finally show ?case using Cons by simp
qed

lemma split_joined:
  assumes "\<forall>t \<in> set (ts @ [t]). t \<noteq> [] \<and> (\<forall>c \<in> set t. \<not> is_space c)"
  shows "bytes_split (concat (map (\<lambda>x. x @ '' '') ts) @ t) = ts @ [t]"
proof -
  from assms have t: "t \<noteq> []" "\<forall>c \<in> set t. \<not> is_space c" by auto
  have "split_from [] t = [t]"
    using split_from_token [OF t(2), of "[]" "[]"] t(1) by simp
  with split_from_tokens [of ts t] assms show ?thesis by (simp add: bytes_split_def)
qed

text \<open>
  C8, as the claim states it, fails: the search succeeds with three tokens, the logout
  that follows raises, and the count returned is \<open>-1\<close>.
\<close>

theorem logout_failure_counterexample:
  "search_unseen (calm_imap \<lparr> logout := Inl (LibraryError ''abort'') \<rparr>)
     = Inr (''OK'', [Some ''1 2 3''])
   \<and> bytes_split ''1 2 3'' = [''1'', ''2'', ''3'']
   \<and> imap_get_unread_count \<lparr> account = work_account \<rparr>
         (calm_imap \<lparr> logout := Inl (LibraryError ''abort'') \<rparr>)
     = ([ImapConnect (JStr ''imap.example.org'') (JInt 993), KeyringGet (JStr ''me@example.org''),
         ImapLogin (JStr ''me@example.org''), ImapSelect, ImapSearch, ImapLogout,
         Log ''ERROR'' [Lit ''Error checking '', Fmt (JStr ''Work''), Lit '': '', Lit ''abort'']],
        Inr (- 1))"
  by (simp add: imap_get_unread_count_def get_password_def io_defs calm_imap_def work_account_def
      first_tokens_def bytes_split_def is_space_def)

text \<open>
  C8 (amended). For every IMAP handler whose account has a name and every session,
  \<open>get_unread_count\<close> does not raise and returns an int that is at least \<open>-1\<close>; when the
  UNSEEN search reports a status other than \<open>OK\<close> it returns \<open>-1\<close>; when every step up to
  the search succeeds, the search reports \<open>OK\<close> with a byte string as first item and the
  logout does not raise, it returns the number of whitespace-delimited tokens of that
  item (\<open>split_joined\<close>: for tokens joined by single spaces, their number); when the logout
  raises, it returns \<open>-1\<close>.
\<close>

theorem imap_search_outcome:
  assumes "account h ''name'' = Some name"
  shows "(\<exists>n. snd (imap_get_unread_count h s) = Inr n \<and> - 1 \<le> n)
    \<and> (\<forall>status response. search_unseen s = Inr (status, response) \<longrightarrow> status \<noteq> ''OK'' \<longrightarrow>
          snd (imap_get_unread_count h s) = Inr (- 1))
    \<and> (\<forall>server port addr password b rest.
          account h ''imap_server'' = Some server \<longrightarrow> account h ''imap_port'' = Some port \<longrightarrow>
          account h ''email'' = Some addr \<longrightarrow> connect s = Inr () \<longrightarrow>
          snd (get_password h s) = Inr password \<longrightarrow> login s = Inr () \<longrightarrow>
          select_inbox s = Inr () \<longrightarrow> search_unseen s = Inr (''OK'', Some b # rest) \<longrightarrow>
          logout s = Inr () \<longrightarrow>
          snd (imap_get_unread_count h s) = Inr (int (length (bytes_split b))))
    \<and> (\<forall>e. logout s = Inl e \<longrightarrow> snd (imap_get_unread_count h s) = Inr (- 1))"
proof -
  note r = imap_result [OF assms, of s]
  have a: "\<exists>n. snd (imap_get_unread_count h s) = Inr n \<and> - 1 \<le> n"
    unfolding r by (auto split: option.splits sum.splits prod.splits)
  have b: "\<forall>status response. search_unseen s = Inr (status, response) \<longrightarrow> status \<noteq> ''OK'' \<longrightarrow>
          snd (imap_get_unread_count h s) = Inr (- 1)"
    unfolding r by (auto split: option.splits sum.splits prod.splits)
  have c: "\<forall>server port addr password b rest.
          account h ''imap_server'' = Some server \<longrightarrow> account h ''imap_port'' = Some port \<longrightarrow>
          account h ''email'' = Some addr \<longrightarrow> connect s = Inr () \<longrightarrow>
          snd (get_password h s) = Inr password \<longrightarrow> login s = Inr () \<longrightarrow>
          select_inbox s = Inr () \<longrightarrow> search_unseen s = Inr (''OK'', Some b # rest) \<longrightarrow>
          logout s = Inr () \<longrightarrow>
          snd (imap_get_unread_count h s) = Inr (int (length (bytes_split b)))"
    unfolding r by (auto simp: first_tokens_def)
  have d: "\<forall>e. logout s = Inl e \<longrightarrow> snd (imap_get_unread_count h s) = Inr (- 1)"
    unfolding r by (auto split: option.splits sum.splits prod.splits)
  from a b c d show ?thesis by blast
qed

theorem imap_search_outcome_witness:
  "account \<lparr> account = work_account \<rparr> ''name'' = Some (JStr ''Work'')
   \<and> search_unseen calm_imap = Inr (''OK'', [Some ''1 2 3''])
   \<and> snd (imap_get_unread_count \<lparr> account = work_account \<rparr> calm_imap) = Inr 3
   \<and> snd (imap_get_unread_count \<lparr> account = work_account \<rparr>
            (calm_imap \<lparr> search_unseen := Inr (''NO'', []) \<rparr>)) = Inr (- 1)
   \<and> snd (imap_get_unread_count \<lparr> account = work_account \<rparr>
            (calm_imap \<lparr> logout := Inl (LibraryError ''abort'') \<rparr>)) = Inr (- 1)"
proof -
  have n: "account \<lparr> account = work_account \<rparr> ''name'' = Some (JStr ''Work'')"
    by (simp add: work_account_def)
  have ok: "snd (imap_get_unread_count \<lparr> account = work_account \<rparr> calm_imap)
              = Inr (int (length (bytes_split ''1 2 3'')))"
    using imap_search_outcome [OF n, of calm_imap]
    by (simp add: work_account_def calm_imap_def get_password_def io_defs)
  have no: "snd (imap_get_unread_count \<lparr> account = work_account \<rparr>
            (calm_imap \<lparr> search_unseen := Inr (''NO'', []) \<rparr>)) = Inr (- 1)"
    using imap_search_outcome [OF n, of "calm_imap \<lparr> search_unseen := Inr (''NO'', []) \<rparr>"]
    by simp
  have lo: "snd (imap_get_unread_count \<lparr> account = work_account \<rparr>
            (calm_imap \<lparr> logout := Inl (LibraryError ''abort'') \<rparr>)) = Inr (- 1)"
    using imap_search_outcome [OF n, of "calm_imap \<lparr> logout := Inl (LibraryError ''abort'') \<rparr>"]
    by simp
  have "bytes_split ''1 2 3'' = [''1'', ''2'', ''3'']" by (simp add: bytes_split_def is_space_def)
  with n ok no lo show ?thesis by (simp add: calm_imap_def)
qed

section \<open>Running the Status Reporter twice\<close>

lemma format_time_ago_status:
  "(case format_time_ago lib now1 ts of
      Inl e \<Rightarrow> format_time_ago lib now2 ts = Inl e
    | Inr a \<Rightarrow> (\<exists>b. format_time_ago lib now2 ts = Inr b))"
  by (simp add: format_time_ago_def datetime_sub_def split: sum.splits datetime.splits)

lemma print_timestamp_status:
  "snd (print_timestamp lib now2 ts) = snd (print_timestamp lib now1 ts)
   \<and> length (fst (print_timestamp lib now2 ts)) = length (fst (print_timestamp lib now1 ts))"
  using format_time_ago_status [of lib now1 ts now2]
  by (auto simp: print_timestamp_def split: sum.splits)

lemma print_timestamp_same:
  assumes "format_time_ago lib now2 ts = format_time_ago lib now1 ts"
  shows "print_timestamp lib now2 ts = print_timestamp lib now1 ts"
  using assms by (simp add: print_timestamp_def)

lemma status_body_status:
  "snd (status_body lib now2 args content) = snd (status_body lib now1 args content)
   \<and> length (fst (status_body lib now2 args content)) = length (fst (status_body lib now1 args content))"
proof -
  have "\<And>ts. snd (print_timestamp lib now2 ts) = snd (print_timestamp lib now1 ts)"
    and "\<And>ts. length (fst (print_timestamp lib now2 ts)) = length (fst (print_timestamp lib now1 ts))"
    using print_timestamp_status by blast+
  then show ?thesis
    apply (auto simp: status_body_def split: sum.splits prod.splits option.splits)
     apply (metis snd_conv)
    apply (metis fst_conv)
    done
qed

lemma status_body_json:
  "json_flag args \<Longrightarrow> status_body lib now2 args content = status_body lib now1 args content"
  by (simp add: status_body_def split: sum.splits)

lemma status_body_same:
  assumes "\<forall>data ts. content = Inr data \<longrightarrow> dict_get data ''timestamp'' JNull = Inr ts \<longrightarrow>
             format_time_ago lib now2 ts = format_time_ago lib now1 ts"
  shows "status_body lib now2 args content = status_body lib now1 args content"
proof (cases content)
  case (Inl e)
  then show ?thesis by (simp add: status_body_def)
next
  case (Inr data)
  show ?thesis
  proof (cases "dict_get data ''timestamp'' JNull")
    case (Inl e)
    with Inr show ?thesis by (simp add: status_body_def)
  next
    case ts: (Inr ts)
    have "print_timestamp lib now2 ts = print_timestamp lib now1 ts"
      using assms Inr ts by (intro print_timestamp_same) simp
    with Inr ts show ?thesis
      by (simp add: status_body_def split: sum.splits prod.splits option.splits)
  qed
qed

lemma files_after_main: "files_after (show_status_main lib now args files) = files"
  by (simp add: show_status_main_def split: prod.splits option.splits)

lemmas status_eval =
  show_status_main_def locate_results_def status_body_def print_timestamp_def parse_timestamp_def
  format_time_ago_def datetime_sub_def timedelta_of_def time_ago_def str_int_def digit_char_def
  dict_get_def dict_items_def status_store_def sample_lib_def default_view_def

text \<open>
  C9, as the claim states it, fails: the relative time printed depends on the clock, so
  a second run one minute after the first prints another line.
\<close>

theorem rerun_counterexample:
  "printed (show_status_main sample_lib 5000000 default_view status_store)
     = [Text ''--- Email Inbox Status ---'', Text ''Work: 3 unread'',
        Text ''Last checked: 5 seconds ago'', Text ''Exact time: 2024-01-01 00:00:00'']
   \<and> printed (show_status_main sample_lib 65000000 default_view
        (files_after (show_status_main sample_lib 5000000 default_view status_store)))
     = [Text ''--- Email Inbox Status ---'', Text ''Work: 3 unread'',
        Text ''Last checked: 1 minute ago'', Text ''Exact time: 2024-01-01 00:00:00'']
   \<and> printed (show_status_main sample_lib 65000000 default_view
        (files_after (show_status_main sample_lib 5000000 default_view status_store)))
     \<noteq> printed (show_status_main sample_lib 5000000 default_view status_store)"
  by (simp add: status_eval)

text \<open>
  C9 (amended). Neither run of the Status Reporter changes the Result Store. Two runs on
  the same store, whatever the clock shows at each, end with the same exit code and print
  the same number of lines; they print the same lines when \<open>--json\<close> is given, and when
  the stored timestamp, if it is a string, is rendered to the same relative time at both
  runs.
\<close>

theorem status_reporter_rerun:
  "files_after (show_status_main lib now1 args files) = files
   \<and> files_after (show_status_main lib now2 args (files_after (show_status_main lib now1 args files))) = files
   \<and> exit_code (show_status_main lib now2 args files) = exit_code (show_status_main lib now1 args files)
   \<and> length (printed (show_status_main lib now2 args files))
       = length (printed (show_status_main lib now1 args files))
   \<and> (json_flag args \<longrightarrow>
        show_status_main lib now2 args files = show_status_main lib now1 args files)
   \<and> ((\<forall>data ts. files (fst (locate_results files args)) = Some (Inr data) \<longrightarrow>
               dict_get data ''timestamp'' JNull = Inr ts \<longrightarrow>
               format_time_ago lib now2 ts = format_time_ago lib now1 ts) \<longrightarrow>
        show_status_main lib now2 args files = show_status_main lib now1 args files)"
proof -
  obtain p notice where loc: "locate_results files args = (p, notice)"
    by (cases "locate_results files args")
  have ex: "exit_code (show_status_main lib now2 args files) = exit_code (show_status_main lib now1 args files)
     \<and> length (printed (show_status_main lib now2 args files))
       = length (printed (show_status_main lib now1 args files))"
  proof (cases "files p")
    case None
    with loc show ?thesis by (simp add: show_status_main_def)
  next
    case (Some content)
    obtain l1 r1 where b1: "status_body lib now1 args content = (l1, r1)"
      by (cases "status_body lib now1 args content")
    obtain l2 r2 where b2: "status_body lib now2 args content = (l2, r2)"
      by (cases "status_body lib now2 args content")
    from status_body_status [of lib now2 args content now1] b1 b2
    have "r2 = r1" "length l2 = length l1" by simp_all
    with loc Some b1 b2 show ?thesis
      by (simp add: show_status_main_def split: option.splits)
  qed
  have js: "json_flag args \<longrightarrow>
        show_status_main lib now2 args files = show_status_main lib now1 args files"
    using loc
    by (auto simp: show_status_main_def status_body_json [of args lib now2 _ now1]
        split: option.splits)
  have same: "(\<forall>data ts. files (fst (locate_results files args)) = Some (Inr data) \<longrightarrow>
               dict_get data ''timestamp'' JNull = Inr ts \<longrightarrow>
               format_time_ago lib now2 ts = format_time_ago lib now1 ts) \<longrightarrow>
        show_status_main lib now2 args files = show_status_main lib now1 args files"
  proof
    assume h: "\<forall>data ts. files (fst (locate_results files args)) = Some (Inr data) \<longrightarrow>
               dict_get data ''timestamp'' JNull = Inr ts \<longrightarrow>
               format_time_ago lib now2 ts = format_time_ago lib now1 ts"
    show "show_status_main lib now2 args files = show_status_main lib now1 args files"
    proof (cases "files p")
      case None
      with loc show ?thesis by (simp add: show_status_main_def)
    next
      case (Some content)
      have "status_body lib now2 args content = status_body lib now1 args content"
        using h loc Some by (intro status_body_same) simp
      with loc Some show ?thesis by (simp add: show_status_main_def)
    qed
  qed
  from ex js same show ?thesis by (simp add: files_after_main)
qed

theorem status_reporter_rerun_witness:
  "show_status_main sample_lib 5400000 default_view status_store
     = show_status_main sample_lib 5000000 default_view status_store
   \<and> printed (show_status_main sample_lib 5000000 default_view status_store)
     = [Text ''--- Email Inbox Status ---'', Text ''Work: 3 unread'',
        Text ''Last checked: 5 seconds ago'', Text ''Exact time: 2024-01-01 00:00:00'']
   \<and> json_flag json_view
   \<and> show_status_main sample_lib 65000000 json_view status_store
     = show_status_main sample_lib 5000000 json_view status_store"
proof -
  have h: "\<forall>data ts. status_store (fst (locate_results status_store default_view)) = Some (Inr data) \<longrightarrow>
               dict_get data ''timestamp'' JNull = Inr ts \<longrightarrow>
               format_time_ago sample_lib 5400000 ts = format_time_ago sample_lib 5000000 ts"
    by (auto simp: status_eval)
  from status_reporter_rerun [of sample_lib 5000000 default_view status_store 5400000] h
  have a: "show_status_main sample_lib 5400000 default_view status_store
     = show_status_main sample_lib 5000000 default_view status_store" by blast
  have b: "printed (show_status_main sample_lib 5000000 default_view status_store)
     = [Text ''--- Email Inbox Status ---'', Text ''Work: 3 unread'',
        Text ''Last checked: 5 seconds ago'', Text ''Exact time: 2024-01-01 00:00:00'']"
    by (simp add: status_eval)
  have j: "json_flag json_view" by (simp add: json_view_def)
  from status_reporter_rerun [of sample_lib 5000000 json_view status_store 65000000] j
  have c: "show_status_main sample_lib 65000000 json_view status_store
     = show_status_main sample_lib 5000000 json_view status_store" by blast
  from a b j c show ?thesis by simp
qed

section \<open>Two descriptors with one name\<close>

lemma keys_dict_set:
  "map fst (dict_set kvs k v) = (if k \<in> set (map fst kvs) then map fst kvs else map fst kvs @ [k])"
  by (induction kvs) (auto simp: rev_image_eqI)

lemma distinct_dict_set: "distinct (map fst kvs) \<Longrightarrow> distinct (map fst (dict_set kvs k v))"
  by (simp add: keys_dict_set)

lemma dict_set_fresh: "k \<notin> set (map fst kvs) \<Longrightarrow> dict_set kvs k v = kvs @ [(k, v)]"
  by (induction kvs) auto

lemma setup_handler_result:
  assumes "setup_handler hs a = (evs, Inr hs')"
  shows "\<exists>n h. a ''name'' = Some n \<and> make_handler a = ([], Inr h) \<and> hs' = dict_set hs n h"
  using assms
  by (auto simp: setup_handler_def make_handler_def io_defs hashable_def
      split: option.splits json.splits if_splits)

lemma setup_handlers_Cons:
  assumes "setup_handlers hs (a # rest) = (evs, Inr hs')"
  shows "\<exists>mid. setup_handler hs a = ([], Inr mid) \<and> setup_handlers mid rest = ([], Inr hs')"
proof -
  obtain r where r: "setup_handler hs a = ([], r)"
    using setup_handler_events [of hs a] by (cases "setup_handler hs a") simp
  show ?thesis
  proof (cases r)
    case (Inl e)
    with r assms show ?thesis by simp
  next
    case (Inr mid)
    obtain r' where r': "setup_handlers mid rest = ([], r')"
      using setup_handlers_events [of mid rest] by (cases "setup_handlers mid rest") simp
    with r Inr assms show ?thesis by simp
  qed
qed

lemma setup_handlers_distinct:
  assumes "setup_handlers hs accts = (evs, Inr hs')" and "distinct (map fst hs)"
  shows "distinct (map fst hs')"
  using assms
proof (induction accts arbitrary: hs evs)
  case Nil
  then show ?case by (simp add: returns_def)
next
  case (Cons a accts)
  from setup_handlers_Cons [OF Cons.prems(1)] obtain mid where
    m: "setup_handler hs a = ([], Inr mid)" and r: "setup_handlers mid accts = ([], Inr hs')"
    by blast
  from setup_handler_result [OF m] Cons.prems(2) have "distinct (map fst mid)"
    by (auto simp: distinct_dict_set)
  with Cons.IH [OF r] show ?case .
qed

lemma setup_handlers_other_names:
  assumes "setup_handlers hs accts = (evs, Inr hs')" and "\<forall>b \<in> set accts. b ''name'' \<noteq> Some n"
  shows "map_of hs' n = map_of hs n"
  using assms
proof (induction accts arbitrary: hs evs)
  case Nil
  then show ?case by (simp add: returns_def)
next
  case (Cons a accts)
  from setup_handlers_Cons [OF Cons.prems(1)] obtain mid where
    m: "setup_handler hs a = ([], Inr mid)" and r: "setup_handlers mid accts = ([], Inr hs')"
    by blast
  from setup_handler_result [OF m] Cons.prems(2) have "map_of mid n = map_of hs n"
    by (auto simp: map_of_dict_set)
  moreover from Cons.IH [OF r] Cons.prems(2) have "map_of hs' n = map_of mid n" by simp
  ultimately show ?case by simp
qed

lemma setup_handlers_last_wins:
  assumes "setup_handlers hs (pre @ a # post) = (evs, Inr hs')"
    and "a ''name'' = Some n" and "\<forall>b \<in> set post. b ''name'' \<noteq> Some n"
  shows "\<exists>h. make_handler a = ([], Inr h) \<and> map_of hs' n = Some h"
  using assms
proof (induction pre arbitrary: hs evs)
  case Nil
  from setup_handlers_Cons [of hs a post evs hs'] Nil.prems(1) obtain mid where
    m: "setup_handler hs a = ([], Inr mid)" and r: "setup_handlers mid post = ([], Inr hs')"
    by auto
  from setup_handler_result [OF m] Nil.prems(2) obtain h where
    h: "make_handler a = ([], Inr h)" "mid = dict_set hs n h" by auto
  from setup_handlers_other_names [OF r Nil.prems(3)] h
  show ?case by (simp add: map_of_dict_set)
next
  case (Cons p pre)
  from setup_handlers_Cons [of hs p "pre @ a # post" evs hs'] Cons.prems(1) obtain mid where
    r: "setup_handlers mid (pre @ a # post) = ([], Inr hs')"
    by auto
  from Cons.IH [OF r Cons.prems(2) Cons.prems(3)] show ?case .
qed

lemma check_from_result:
  assumes "check_from w i hs acc = (evs, Inr results)"
    and "distinct (map fst hs)" and "set (map fst hs) \<inter> set (map fst acc) = {}"
  shows "\<exists>counts. length counts = length hs \<and> results = acc @ zip (map fst hs) counts
           \<and> (\<forall>j < length hs. snd (get_unread_count w (i + j) (snd (hs ! j))) = Inr (counts ! j))"
  using assms
proof (induction hs arbitrary: i acc evs)
  case Nil
  then show ?case by (simp add: returns_def)
next
  case (Cons kh hs)
  obtain name h where kh: "kh = (name, h)" by (cases kh)
  obtain e1 r1 where g: "get_unread_count w i h = (e1, r1)" by (cases "get_unread_count w i h")
  show ?case
  proof (cases r1)
    case (Inl e)
    with Cons.prems(1) kh g show ?thesis by simp
  next
    case (Inr count)
    obtain e2 r2 where c: "check_from w (Suc i) hs (dict_set acc name count) = (e2, r2)"
      by (cases "check_from w (Suc i) hs (dict_set acc name count)")
    with Cons.prems(1) kh g Inr have r2: "r2 = Inr results" by simp
    from Cons.prems kh have fresh: "name \<notin> set (map fst acc)" by auto
    then have ds: "dict_set acc name count = acc @ [(name, count)]" by (rule dict_set_fresh)
    have "\<exists>counts. length counts = length hs
            \<and> results = (dict_set acc name count) @ zip (map fst hs) counts
            \<and> (\<forall>j < length hs. snd (get_unread_count w (Suc i + j) (snd (hs ! j))) = Inr (counts ! j))"
      using c r2 Cons.prems(2,3) kh ds by (intro Cons.IH) auto
    then obtain counts where cs: "length counts = length hs"
        "results = (dict_set acc name count) @ zip (map fst hs) counts"
        "\<forall>j < length hs. snd (get_unread_count w (Suc i + j) (snd (hs ! j))) = Inr (counts ! j)"
      by blast
    have "\<forall>j < length (kh # hs).
            snd (get_unread_count w (i + j) (snd ((kh # hs) ! j))) = Inr ((count # counts) ! j)"
    proof (intro allI impI)
      fix j assume "j < length (kh # hs)"
      then show "snd (get_unread_count w (i + j) (snd ((kh # hs) ! j))) = Inr ((count # counts) ! j)"
        using cs(3) g Inr kh by (cases j) auto
    qed
    moreover have "results = acc @ zip (map fst (kh # hs)) (count # counts)"
      using cs(2) ds kh by simp
    moreover have "length (count # counts) = length (kh # hs)" using cs(1) by simp
    ultimately show ?thesis by blast
  qed
qed


lemma filter_distinct_key:
  assumes "distinct (map fst kvs)" and "i < length kvs"
  shows "filter (\<lambda>kv. fst kv = fst (kvs ! i)) kvs = [kvs ! i]"
  using assms
proof (induction kvs arbitrary: i)
  case Nil
  then show ?case by simp
next
  case (Cons kv kvs)
  show ?case
  proof (cases i)
    case 0
    have "filter (\<lambda>x. fst x = fst kv) kvs = []"
      using Cons.prems(1) by (auto simp: filter_empty_conv rev_image_eqI)
    with 0 show ?thesis by simp
  next
    case (Suc j)
    with Cons.prems have j: "j < length kvs" and d: "distinct (map fst kvs)" by auto
    have "fst kv \<noteq> fst (kvs ! j)"
    proof
      assume "fst kv = fst (kvs ! j)"
      then have "fst kv \<in> fst ` set kvs" using j by (metis imageI nth_mem)
      with Cons.prems(1) show False by simp
    qed
    with Cons.IH [OF d j] Suc show ?thesis by simp
  qed
qed

lemma check_from_returns:
  assumes "\<forall>j < length hs. \<exists>c. snd (get_unread_count w (i + j) (snd (hs ! j))) = Inr c"
  shows "\<exists>es results. check_from w i hs acc = (es, Inr results)"
  using assms
proof (induction hs arbitrary: i acc)
  case Nil
  show ?case by (simp add: returns_def)
next
  case (Cons kh hs)
  obtain name h where kh: "kh = (name, h)" by (cases kh)
  from Cons.prems [rule_format, of 0] kh obtain c where "snd (get_unread_count w i h) = Inr c"
    by auto
  then obtain e1 where g: "get_unread_count w i h = (e1, Inr c)"
    by (cases "get_unread_count w i h") simp
  have "\<forall>j < length hs. \<exists>c. snd (get_unread_count w (Suc i + j) (snd (hs ! j))) = Inr c"
  proof (intro allI impI)
    fix j assume "j < length hs"
    then have "Suc j < length (kh # hs)" by simp
    from Cons.prems [rule_format, OF this]
    show "\<exists>c. snd (get_unread_count w (Suc i + j) (snd (hs ! j))) = Inr c" by simp
  qed
  from Cons.IH [OF this, of "dict_set acc name c"] obtain es results where
    "check_from w (Suc i) hs (dict_set acc name c) = (es, Inr results)" by blast
  with kh g show ?case by simp
qed

text \<open>
  C10, as the claim states it, fails twice. With two descriptors named \<open>Work\<close>, the later
  one a Gmail account whose token refresh fails on the network, \<open>check_all_accounts\<close>
  raises and returns no entry; and when a descriptor without a name follows them,
  \<open>_setup_handlers\<close> raises and no Registry is built.
\<close>

theorem duplicate_name_raise_counterexample:
  "setup_handlers [] [work_account, work_twin] = ([], Inr [(JStr ''Work'', twin_handler)])
   \<and> work_account ''name'' = Some (JStr ''Work'')
   \<and> work_twin ''name'' = Some (JStr ''Work'')
   \<and> check_all_accounts stale_world
        \<lparr> accounts = [work_account, work_twin], handlers = [(JStr ''Work'', twin_handler)] \<rparr>
       = ([PickleLoad (JStr ''other@gmail.com''), CredsRefresh],
          Inl (LibraryError ''TransportError: connection refused''))
   \<and> setup_handlers [] [work_account, work_twin, nameless_account] = ([], Inl (KeyError ''name''))"
  by (simp add: setup_handler_def make_handler_def hashable_def check_all_accounts_def
      get_unread_count_def gmail_get_unread_count_def authenticate_def io_defs stale_world_def
      calm_world_def stale_gmail_def calm_gmail_def work_account_def work_twin_def
      twin_handler_def nameless_account_def)

text \<open>
  C10 (amended). In a configuration whose descriptors all have a type, a hashable name
  and, for type \<open>gmail\<close>, an email, when two descriptors share a name and no later
  descriptor has it, the Registry is built and holds exactly one handler under that name,
  the one built from the later descriptor; and whenever the check of every handler
  returns, \<open>check_all_accounts\<close> returns a mapping with the keys of the Registry and
  exactly one entry for that name, whose value is the count that this handler returned.
\<close>

theorem duplicate_name_last_wins:
  assumes "list_all describable (pre @ a1 # mid @ a2 # post)"
    and "a1 ''name'' = Some n" and "a2 ''name'' = Some n"
    and "\<forall>b \<in> set post. b ''name'' \<noteq> Some n"
  shows "\<exists>hs h i.
           setup_handlers [] (pre @ a1 # mid @ a2 # post) = ([], Inr hs)
           \<and> make_handler a2 = ([], Inr h)
           \<and> filter (\<lambda>kv. fst kv = n) hs = [(n, h)]
           \<and> i < length hs \<and> hs ! i = (n, h)
           \<and> (\<forall>w. (\<forall>j < length hs. \<exists>c. snd (get_unread_count w j (snd (hs ! j))) = Inr c) \<longrightarrow>
                 (\<exists>es results c.
                    check_all_accounts w
                      \<lparr> accounts = pre @ a1 # mid @ a2 # post, handlers = hs \<rparr> = (es, Inr results)
                    \<and> map fst results = map fst hs
                    \<and> snd (get_unread_count w i h) = Inr c
                    \<and> filter (\<lambda>kv. fst kv = n) results = [(n, c)]))"
proof -
  from setup_handlers_describable [OF assms(1), of "[]"] obtain hs where
    hs: "setup_handlers [] (pre @ a1 # mid @ a2 # post) = ([], Inr hs)" by blast
  have app: "pre @ a1 # mid @ a2 # post = (pre @ a1 # mid) @ a2 # post" by simp
  from setup_handlers_last_wins [of "[]" "pre @ a1 # mid" a2 post "[]" hs n] hs assms(3,4)
  obtain h where h: "make_handler a2 = ([], Inr h)" "map_of hs n = Some h"
    unfolding app by auto
  have dist: "distinct (map fst hs)"
    using setup_handlers_distinct [OF hs] by simp
  from h(2) have "(n, h) \<in> set hs" by (rule map_of_SomeD)
  then obtain i where i: "i < length hs" "hs ! i = (n, h)"
    by (auto simp: in_set_conv_nth)
  have one: "filter (\<lambda>kv. fst kv = n) hs = [(n, h)]"
    using filter_distinct_key [OF dist i(1)] i(2) by simp
  have run: "\<exists>es results c.
               check_all_accounts w
                 \<lparr> accounts = pre @ a1 # mid @ a2 # post, handlers = hs \<rparr> = (es, Inr results)
               \<and> map fst results = map fst hs
               \<and> snd (get_unread_count w i h) = Inr c
               \<and> filter (\<lambda>kv. fst kv = n) results = [(n, c)]"
    if ret: "\<forall>j < length hs. \<exists>c. snd (get_unread_count w j (snd (hs ! j))) = Inr c" for w
  proof -
    from check_from_returns [of hs w 0 "[]"] ret obtain es results where
      c: "check_from w 0 hs [] = (es, Inr results)" by auto
    from check_from_result [OF c dist] obtain counts where
      cs: "length counts = length hs" "results = zip (map fst hs) counts"
          "\<forall>j < length hs. snd (get_unread_count w j (snd (hs ! j))) = Inr (counts ! j)"
      by auto
    have keys: "map fst results = map fst hs" using cs(1,2) by simp
    have ri: "results ! i = (n, counts ! i)" using cs(1,2) i by simp
    have "filter (\<lambda>kv. fst kv = fst (results ! i)) results = [results ! i]"
      using dist keys i(1) cs(1,2) by (intro filter_distinct_key) simp_all
    with ri have f: "filter (\<lambda>kv. fst kv = n) results = [(n, counts ! i)]" by simp
    from cs(3) i have g: "snd (get_unread_count w i h) = Inr (counts ! i)" by auto
    from c have "check_all_accounts w
                 \<lparr> accounts = pre @ a1 # mid @ a2 # post, handlers = hs \<rparr> = (es, Inr results)"
      by (simp add: check_all_accounts_def)
    with keys f g show ?thesis by blast
  qed
  from hs h(1) one i run show ?thesis by blast
qed

theorem duplicate_name_last_wins_witness:
  "list_all describable ([] @ work_twin # [gmail_account] @ work_account # [])
   \<and> work_twin ''name'' = Some (JStr ''Work'')
   \<and> work_account ''name'' = Some (JStr ''Work'')
   \<and> setup_handlers [] ([] @ work_twin # [gmail_account] @ work_account # [])
       = ([], Inr (handlers twin_counter))
   \<and> make_handler work_account = ([], Inr (Imap \<lparr> account = work_account \<rparr>))
   \<and> snd (get_unread_count calm_world 0 (snd (handlers twin_counter ! 0))) = Inr 3
   \<and> snd (get_unread_count calm_world 1 (snd (handlers twin_counter ! 1))) = Inr 2
   \<and> snd (check_all_accounts calm_world twin_counter)
       = Inr [(JStr ''Work'', 3), (JStr ''Private'', 2)]
   \<and> filter (\<lambda>kv. fst kv = JStr ''Work'') [(JStr ''Work'', 3 :: int), (JStr ''Private'', 2)]
       = [(JStr ''Work'', 3)]"
proof -
  have d: "list_all describable ([] @ work_twin # [gmail_account] @ work_account # [])"
    by (simp add: describable_def hashable_def work_twin_def gmail_account_def work_account_def)
  have n1: "work_twin ''name'' = Some (JStr ''Work'')" by (simp add: work_twin_def)
  have n2: "work_account ''name'' = Some (JStr ''Work'')" by (simp add: work_account_def)
  have p: "\<forall>b \<in> set []. b ''name'' \<noteq> Some (JStr ''Work'')" by simp
  have s: "setup_handlers [] ([] @ work_twin # [gmail_account] @ work_account # [])
             = ([], Inr (handlers twin_counter))"
    by (simp add: setup_handler_def make_handler_def hashable_def io_defs work_account_def
        work_twin_def gmail_account_def twin_counter_def)
  have m: "make_handler work_account = ([], Inr (Imap \<lparr> account = work_account \<rparr>))"
    by (simp add: make_handler_def io_defs work_account_def)
  have g0: "snd (get_unread_count calm_world 0 (snd (handlers twin_counter ! 0))) = Inr 3"
    by (simp add: twin_counter_def get_unread_count_def imap_get_unread_count_def
        get_password_def first_tokens_def bytes_split_def is_space_def io_defs calm_world_def
        calm_imap_def work_account_def)
  have g1: "snd (get_unread_count calm_world 1 (snd (handlers twin_counter ! 1))) = Inr 2"
    by (simp add: twin_counter_def get_unread_count_def gmail_get_unread_count_def
        authenticate_def dict_get_def py_len_def io_defs calm_world_def calm_gmail_def)
  have ret: "\<forall>j < length (handlers twin_counter).
               \<exists>c. snd (get_unread_count calm_world j (snd (handlers twin_counter ! j))) = Inr c"
  proof (intro allI impI)
    fix j assume "j < length (handlers twin_counter)"
    then have "j = 0 \<or> j = 1" by (auto simp: twin_counter_def)
    with g0 g1 show "\<exists>c. snd (get_unread_count calm_world j (snd (handlers twin_counter ! j))) = Inr c"
      by auto
  qed
  from duplicate_name_last_wins [OF d n1 n2 p] s obtain h i where
    hi: "make_handler work_account = ([], Inr h)" "i < length (handlers twin_counter)"
        "handlers twin_counter ! i = (JStr ''Work'', h)"
    and run: "\<forall>w. (\<forall>j < length (handlers twin_counter).
                      \<exists>c. snd (get_unread_count w j (snd (handlers twin_counter ! j))) = Inr c) \<longrightarrow>
                 (\<exists>es results c.
                    check_all_accounts w
                      \<lparr> accounts = [] @ work_twin # [gmail_account] @ work_account # [],
                        handlers = handlers twin_counter \<rparr> = (es, Inr results)
                    \<and> map fst results = map fst (handlers twin_counter)
                    \<and> snd (get_unread_count w i h) = Inr c
                    \<and> filter (\<lambda>kv. fst kv = JStr ''Work'') results = [(JStr ''Work'', c)])"
    by auto
  have tc: "\<lparr> accounts = [] @ work_twin # [gmail_account] @ work_account # [],
              handlers = handlers twin_counter \<rparr> = twin_counter"
    by (simp add: twin_counter_def)
  from spec [OF run, of calm_world] ret tc obtain es results c where
    r: "check_all_accounts calm_world twin_counter = (es, Inr results)"
       "map fst results = map fst (handlers twin_counter)"
       "snd (get_unread_count calm_world i h) = Inr c"
       "filter (\<lambda>kv. fst kv = JStr ''Work'') results = [(JStr ''Work'', c)]"
    by auto
  have ev: "snd (check_all_accounts calm_world twin_counter)
              = Inr [(JStr ''Work'', 3), (JStr ''Private'', 2)]"
    by (simp add: check_all_accounts_def twin_counter_def get_unread_count_def
        imap_get_unread_count_def get_password_def first_tokens_def bytes_split_def is_space_def
        gmail_get_unread_count_def authenticate_def dict_get_def py_len_def io_defs
        calm_world_def calm_imap_def calm_gmail_def work_account_def)
  from r(1) ev have "results = [(JStr ''Work'', 3), (JStr ''Private'', 2)]" by simp
  with r(4) have f: "filter (\<lambda>kv. fst kv = JStr ''Work'') [(JStr ''Work'', 3 :: int), (JStr ''Private'', 2)]
       = [(JStr ''Work'', 3)]" by simp
  from d n1 n2 s m g0 g1 ev f show ?thesis by blast
qed

end
